theory Spec2Isabelle
  imports Complex_Main "HOL-Library.Word"
begin

section \<open>The program\<close>

text \<open>
  A Node.js client of the HSuite Smart Node network: it draws a node from a static
  catalogue, opens a socket.io connection to it, answers the node's authentication
  challenge with a signature, and then issues two swap operations over the socket, each
  one correlated with its response by event name and bounded by a 30 second timer.

  The repository holds two copies of the program. The documented one contains the
  socket-based swap functions \<open>swapTransactionRequest\<close> and
  \<open>swapTransactionExecute\<close>; the earlier \<open>index.js\<close> issues the swaps over HTTP.
  The class \<open>SmartNodeSocket\<close>, the catalogue \<open>nodes\<close> and the statements of
  \<open>smartNodeSocket\<close> are the same in both, except that \<open>index.js\<close> also passes an
  API key and an origin to \<open>io\<close>, does not log the drawn node before it builds the
  socket, has no \<open>try/catch\<close> inside the challenge listener, and words the rejection
  message differently. The definitions below follow the documented copy.
\<close>

section \<open>JavaScript values\<close>

text \<open>
  The client is JavaScript. The values that travel over the socket (event arguments,
  responses, request parameters) are JSON-like: \<open>undefined\<close>, \<open>null\<close>, booleans,
  numbers (integers here), strings, plain objects (property lists in insertion order)
  and arrays.
\<close>

datatype jsval =
    Undefined
  | Null
  | Bool bool
  | Num int
  | Str string
  | Obj "(string \<times> jsval) list"
  | Arr "jsval list"

type_synonym byte = "8 word"

text \<open>\<open>!v\<close> is \<open>\<not> truthy v\<close>; \<open>a || b\<close> is \<open>js_or a b\<close>.\<close>

fun truthy :: "jsval \<Rightarrow> bool" where
  "truthy Undefined = False"
| "truthy Null = False"
| "truthy (Bool b) = b"
| "truthy (Num n) = (n \<noteq> 0)"
| "truthy (Str s) = (s \<noteq> [])"
| "truthy (Obj kvs) = True"
| "truthy (Arr xs) = True"

fun typeof :: "jsval \<Rightarrow> string" where
  "typeof Undefined = ''undefined''"
| "typeof Null = ''object''"
| "typeof (Bool b) = ''boolean''"
| "typeof (Num n) = ''number''"
| "typeof (Str s) = ''string''"
| "typeof (Obj kvs) = ''object''"
| "typeof (Arr xs) = ''object''"

definition js_or :: "jsval \<Rightarrow> jsval \<Rightarrow> jsval" where
  "js_or a b = (if truthy a then a else b)"

text \<open>
  Reading a data property \<open>v.p\<close> of a value that is neither \<open>undefined\<close> nor
  \<open>null\<close>: the stored value, or \<open>undefined\<close>. (The property names the source reads,
  \<open>status\<close>, \<open>payload\<close>, \<open>error\<close>, \<open>message\<close>, \<open>errorCode\<close>, \<open>code\<close>,
  \<open>isValidSignature\<close>, \<open>signedData\<close>, \<open>signature\<close>, are no built-in properties
  of strings, numbers, booleans or arrays.)
\<close>

fun field :: "jsval \<Rightarrow> string \<Rightarrow> jsval" where
  "field (Obj kvs) p = (case map_of kvs p of Some v \<Rightarrow> v | None \<Rightarrow> Undefined)"
| "field v p = Undefined"

text \<open>Error objects: \<open>new Error(message)\<close> with the properties the source attaches.\<close>

record js_error =
  err_name :: string
  message :: string
  code :: jsval
  err_response :: jsval
  originalError :: jsval
  reason :: jsval

definition new_Error :: "string \<Rightarrow> js_error" where
  "new_Error m = \<lparr>err_name = ''Error'', message = m, code = Undefined,
     err_response = Undefined, originalError = Undefined, reason = Undefined\<rparr>"

text \<open>
  The \<open>TypeError\<close> the runtime throws for \<open>base.p\<close> when \<open>base\<close> is \<open>undefined\<close>
  or \<open>null\<close>.
\<close>

definition TypeError_reading :: "string \<Rightarrow> string \<Rightarrow> js_error" where
  "TypeError_reading base p =
     (new_Error (''Cannot read properties of '' @ base @ '' (reading '' @ [CHR 0x27] @ p
         @ [CHR 0x27] @ '')''))
       \<lparr>err_name := ''TypeError''\<rparr>"

text \<open>Property read that throws as the runtime does.\<close>

fun get_prop :: "jsval \<Rightarrow> string \<Rightarrow> js_error + jsval" where
  "get_prop Undefined p = Inl (TypeError_reading ''undefined'' p)"
| "get_prop Null p = Inl (TypeError_reading ''null'' p)"
| "get_prop v p = Inr (field v p)"

text \<open>An error object seen as a value (what ends up under \<open>originalError\<close>).\<close>

definition error_value :: "js_error \<Rightarrow> jsval" where
  "error_value e = Obj [(''name'', Str (err_name e)), (''message'', Str (message e))]"

subsection \<open>String conversion (template literals, \<open>new Error(v)\<close>)\<close>

function digits :: "nat \<Rightarrow> string" where
  "digits n = (if n < 10 then [''0123456789'' ! n]
               else digits (n div 10) @ [''0123456789'' ! (n mod 10)])"
  by pat_completeness auto
termination
  by (relation "measure id") auto

fun join_comma :: "string list \<Rightarrow> string" where
  "join_comma [] = []"
| "join_comma [s] = s"
| "join_comma (s # t # ss) = s @ '','' @ join_comma (t # ss)"

text \<open>
  \<open>ToString\<close>, which may throw. An integer of the safe range (magnitude at most
  \<open>2^53\<close>) prints as its decimal digits; beyond that range the runtime prints the
  shortest digits that identify the double, in exponent notation from \<open>1e21\<close> on, and
  this printing is a parameter. A plain object converts through
  \<open>Object.prototype.toString\<close> to \<open>[object Object]\<close>, unless it has an own property
  \<open>toString\<close>: in a JSON value that property is not callable, \<open>valueOf\<close> yields no
  primitive either, and the conversion throws a \<open>TypeError\<close>. An array joins the
  conversions of its elements with commas (\<open>undefined\<close> and \<open>null\<close> as empty
  strings), and throws when the conversion of an element throws.
\<close>

definition TypeError :: "string \<Rightarrow> js_error" where
  "TypeError m = (new_Error m)\<lparr>err_name := ''TypeError''\<rparr>"

fun collect :: "('e + 'a) list \<Rightarrow> 'e + 'a list" where
  "collect [] = Inr []"
| "collect (Inl e # rs) = Inl e"
| "collect (Inr a # rs) = (case collect rs of Inl e \<Rightarrow> Inl e | Inr bs \<Rightarrow> Inr (a # bs))"

fun String_of :: "(int \<Rightarrow> string) \<Rightarrow> jsval \<Rightarrow> js_error + string" where
  "String_of number_string Undefined = Inr ''undefined''"
| "String_of number_string Null = Inr ''null''"
| "String_of number_string (Bool b) = Inr (if b then ''true'' else ''false'')"
| "String_of number_string (Num n) =
     Inr (if \<bar>n\<bar> \<le> 9007199254740992
          then (if n < 0 then ''-'' @ digits (nat (- n)) else digits (nat n))
          else number_string n)"
| "String_of number_string (Str s) = Inr s"
| "String_of number_string (Obj kvs) =
     (if map_of kvs ''toString'' = None then Inr ''[object Object]''
      else Inl (TypeError ''Cannot convert object to primitive value''))"
| "String_of number_string (Arr xs) =
     (case collect (map (\<lambda>x. if x = Undefined \<or> x = Null then Inr []
                                else String_of number_string x) xs) of
        Inl e \<Rightarrow> Inl e
      | Inr ss \<Rightarrow> Inr (join_comma ss))"

section \<open>The Smart Node catalogue\<close>

record smart_node =
  operator :: string
  publicKey :: string
  url :: string

text \<open>\<open>const nodes = { mainnet: [...], testnet: [...] }\<close>, keys in source order.\<close>

definition nodes :: "(string \<times> smart_node list) list" where
  "nodes =
    [(''mainnet'',
      [\<lparr>operator = ''0.0.1786597'',
        publicKey = ''302a300506032b65700321003f54816030c29221e4f228c76415cba0db1ab4c49827d9dbf580abc2f2b29c24'',
        url = ''https://mainnet-sn1.hsuite.network''\<rparr>,
       \<lparr>operator = ''0.0.1786598'',
        publicKey = ''302a300506032b6570032100233b043e21d5e148f48e2c2da6607a1f5e6fc381781bd0561967743a8291785e'',
        url = ''https://mainnet-sn2.hsuite.network''\<rparr>,
       \<lparr>operator = ''0.0.1786599'',
        publicKey = ''302a300506032b6570032100c236c88b0aadccf86cc09c57734401409e301d45018ab179f8463801f486c89a'',
        url = ''https://mainnet-sn3.hsuite.network''\<rparr>,
       \<lparr>operator = ''0.0.1786344'',
        publicKey = ''302a300506032b65700321004e3c29113c911ce6dba13669fda53ed1ab3d89547e23c0b7ab2275fd5dc05766'',
        url = ''https://mainnet-sn4.hsuite.network''\<rparr>,
       \<lparr>operator = ''0.0.1786344'',
        publicKey = ''302a300506032b65700321004e3c29113c911ce6dba13669fda53ed1ab3d89547e23c0b7ab2275fd5dc05766'',
        url = ''https://mainnet-sn5.hsuite.network''\<rparr>,
       \<lparr>operator = ''0.0.1786345'',
        publicKey = ''302a300506032b6570032100077bfba9f0fb180026f0de51d4e1083d616eff34a8fe62a1c0e34dd975b7f8cf'',
        url = ''https://mainnet-sn6.hsuite.network''\<rparr>,
       \<lparr>operator = ''0.0.1786347'',
        publicKey = ''302a300506032b6570032100ff792317f5a24278f1a2dddfc9a23670e158ccb9ecd42cdd0ab36e5ad8bc40a6'',
        url = ''https://mainnet-sn7.hsuite.network''\<rparr>,
       \<lparr>operator = ''0.0.1786365'',
        publicKey = ''302a300506032b6570032100485e23e18834571e466f96de9f96f228a1f5da860b319f0f0cb2890f938f298d'',
        url = ''https://mainnet-sn8.hsuite.network''\<rparr>]),
     (''testnet'',
      [\<lparr>operator = ''0.0.467726'',
        publicKey = ''302a300506032b6570032100ae51a8b5d22e40d68fec62e20488132182f304cddbf5cd494d62cb18a06b71c1'',
        url = ''https://testnet-sn1.hsuite.network''\<rparr>,
       \<lparr>operator = ''0.0.467732'',
        publicKey = ''302a300506032b657003210014e45f62427a777c8a5c168115793969c5fa04979b6a40a34c3bff7d20a3b745'',
        url = ''https://testnet-sn2.hsuite.network''\<rparr>,
       \<lparr>operator = ''0.0.467734'',
        publicKey = ''302a300506032b65700321002caf57f6153afb61ed70545516886b1621aa93dd22ae79412f5af0cbfcd2b5ab'',
        url = ''https://testnet-sn3.hsuite.network''\<rparr>,
       \<lparr>operator = ''0.0.467737'',
        publicKey = ''302a300506032b6570032100452e3d988c2f0e40b6194c7543ec880daaefa29b6c48e590b367bbe22de429d3'',
        url = ''https://testnet-sn4.hsuite.network''\<rparr>])]"

text \<open>
  \<open>const operator = { mainnet: {id, private_key}, testnet: {id, private_key} }\<close>: the
  caller's account per network. Its values come from the environment (or are edited
  into the file), so the table is a parameter of the model.
\<close>

record account =
  account_id :: string
  private_key :: string

text \<open>
  Both object literals, \<open>nodes\<close> and \<open>operator\<close>, have the own keys \<open>mainnet\<close>
  and \<open>testnet\<close> and no other. As a parameter of the model such a table is a record
  of two entries; \<open>table_of\<close> reads the catalogue constant as one.
\<close>

record 'a per_network =
  mainnet :: 'a
  testnet :: 'a

datatype network_key = Mainnet | Testnet

definition own_key :: "string \<Rightarrow> network_key option" where
  "own_key network =
     (if network = ''mainnet'' then Some Mainnet
      else if network = ''testnet'' then Some Testnet
      else None)"

definition entry :: "'a per_network \<Rightarrow> network_key \<Rightarrow> 'a" where
  "entry table k = (case k of Mainnet \<Rightarrow> mainnet table | Testnet \<Rightarrow> testnet table)"

definition table_of :: "(string \<times> 'a list) list \<Rightarrow> 'a list per_network" where
  "table_of kvs =
     \<lparr>mainnet = (case map_of kvs ''mainnet'' of Some xs \<Rightarrow> xs | None \<Rightarrow> []),
      testnet = (case map_of kvs ''testnet'' of Some xs \<Rightarrow> xs | None \<Rightarrow> [])\<rparr>"

text \<open>
  A key that is no own key of the table is looked up in \<open>Object.prototype\<close>, whose
  properties are these (all functions, except the accessor \<open>__proto__\<close>, which gives
  \<open>Object.prototype\<close> itself).
\<close>

definition Object_prototype_keys :: "string list" where
  "Object_prototype_keys =
     [''constructor'', ''__defineGetter__'', ''__defineSetter__'', ''hasOwnProperty'',
      ''__lookupGetter__'', ''__lookupSetter__'', ''isPrototypeOf'', ''propertyIsEnumerable'',
      ''toString'', ''valueOf'', ''__proto__'', ''toLocaleString'']"


section \<open>The socket and the \<open>SmartNodeSocket\<close> class\<close>

text \<open>
  The listeners the program registers. Each is a closure; the three handlers of a swap
  call are identified by the number of the call that created them.
\<close>

datatype handler =
    OnConnect
  | OnDisconnect
  | OnErrors
  | OnAuthenticate
  | OnAuthentication
  | ResponseHandler nat
  | ErrorHandler nat
  | DisconnectHandler nat

text \<open>The three message shapes the program emits.\<close>

record auth_payload =
  serverSignature :: "byte list"
  originalPayload :: jsval

datatype wire =
    AuthenticateMsg auth_payload "byte list" string
      \<comment> \<open>\<open>{signedData: {signedPayload, userSignature}, walletId}\<close>\<close>
  | SwapPoolRequestMsg jsval jsval
      \<comment> \<open>\<open>{type: 'swapPoolRequest', senderId, swap}\<close>\<close>
  | SwapPoolExecuteMsg "byte list"
      \<comment> \<open>\<open>{type: 'swapPoolExecute', transactionBytes}\<close>\<close>

text \<open>
  The socket.io client socket, as far as the program uses it: the address and query it
  was created with, the registered listeners in registration order, the log of
  \<open>emit\<close> calls, and the library's own \<open>connected\<close> flag.
\<close>

record sock =
  sock_url :: string
  query_wallet :: string
  listeners :: "(string \<times> handler) list"
  emitted :: "(string \<times> wire) list"
  connected :: bool

definition io :: "string \<Rightarrow> string \<Rightarrow> sock" where
  "io address w = \<lparr>sock_url = address, query_wallet = w, listeners = [], emitted = [],
     connected = False\<rparr>"

text \<open>\<open>s.replace(pat, rep)\<close> with a string pattern: the first occurrence only.\<close>

fun replace :: "string \<Rightarrow> string \<Rightarrow> string \<Rightarrow> string" where
  "replace pat rep [] = (if pat = [] then rep else [])"
| "replace pat rep (c # cs) =
     (if take (length pat) (c # cs) = pat then rep @ drop (length pat) (c # cs)
      else c # replace pat rep cs)"

text \<open>
  \<open>class SmartNodeSocket { node = null; wallet = null; socket = null; ... }\<close>.
  The constructor overwrites \<open>node\<close> with its argument, so \<open>node = None\<close> is the
  \<open>undefined\<close> that was passed for it; \<open>socket = None\<close> is the initial \<open>null\<close>.
\<close>

record SmartNodeSocket =
  node :: "smart_node option"
  wallet :: string
  socket :: "sock option"

definition new_SmartNodeSocket :: "smart_node option \<Rightarrow> string \<Rightarrow> SmartNodeSocket" where
  "new_SmartNodeSocket n w = \<lparr>node = n, wallet = w, socket = None\<rparr>"

definition getNode :: "SmartNodeSocket \<Rightarrow> smart_node option" where
  "getNode this = node this"

text \<open>
  \<open>init(path)\<close>: reads \<open>this.node.url\<close> (a \<open>TypeError\<close> when there is no node),
  rewrites the scheme, creates the socket, stores and returns it.
\<close>

definition init :: "string \<Rightarrow> SmartNodeSocket \<Rightarrow> js_error + (sock \<times> SmartNodeSocket)" where
  "init path this =
     (case node this of
        None \<Rightarrow> Inl (TypeError_reading ''undefined'' ''url'')
      | Some n \<Rightarrow>
          (let u = replace ''http://'' ''ws://'' (replace ''https://'' ''wss://'' (url n));
               s = io (u @ ''/'' @ path) (wallet this)
           in Inr (s, this\<lparr>socket := Some s\<rparr>)))"

definition getSocket :: "string \<Rightarrow> SmartNodeSocket \<Rightarrow> js_error + (sock \<times> SmartNodeSocket)" where
  "getSocket path this =
     (case socket this of
        None \<Rightarrow> init path this
      | Some s \<Rightarrow> Inr (s, this))"


section \<open>The state of a session\<close>

text \<open>
  The collaborators the program calls but does not define: the ledger SDK
  (\<open>PrivateKey.fromString\<close>, which throws on a malformed key, and \<open>privateKey.sign\<close>),
  the built-ins \<open>JSON.stringify\<close>, \<open>Buffer.from\<close> and \<open>new Uint8Array(v)\<close>, and
  the printing of the numbers outside the safe range. The runtime enters with one more
  fact: what it does with a rejected promise that nobody handles. From Node 15 on it
  raises the rejection as an uncaught exception, which ends the process; Node 14 (the
  README asks for version 14 or higher) prints a warning and goes on. The program
  installs no \<open>unhandledRejection\<close> handler.
\<close>

record 'k sdk =
  fromString :: "string \<Rightarrow> js_error + 'k"
  sign :: "'k \<Rightarrow> byte list \<Rightarrow> byte list"
  JSON_stringify :: "auth_payload \<Rightarrow> string"
  Buffer_from :: "string \<Rightarrow> byte list"
  Uint8Array :: "jsval \<Rightarrow> js_error + byte list"
  Number_toString :: "int \<Rightarrow> string"
  rejections_end_process :: bool

text \<open>
  One invocation of \<open>swapTransactionRequest\<close> or \<open>swapTransactionExecute\<close>: its two
  local variables \<open>hasResolved\<close> and \<open>timeout\<close>, and the promise it returned
  (\<open>None\<close> while pending; \<open>Inr\<close> fulfilled, \<open>Inl\<close> rejected).
\<close>

datatype swap_op = Request | Execute

datatype timer = Unset | Armed nat | Cleared | Fired

record call =
  c_op :: swap_op
  hasResolved :: bool
  timeout :: timer
  promise :: "(js_error + jsval) option"

text \<open>
  The whole state: the clock (milliseconds), the uncaught exception that ended the
  process, the errors thrown inside \<open>async\<close> listeners (rejections nobody handles),
  the \<open>SmartNodeSocket\<close> object that \<open>smartNodeSocket\<close> creates, the
  promise \<open>smartNodeSocket\<close> returns (its value \<open>{message, socket: nodeSocket}\<close> is
  kept as the message; the \<open>socket\<close> property is a reference to \<open>nodeSocket\<close>), the
  global \<open>socketConnection\<close> (\<open>None\<close> is \<open>null\<close>; otherwise that same object), and
  the swap calls made so far.
\<close>

record world =
  now :: nat
  uncaught :: "js_error option"
  unhandled :: "js_error list"
  nodeSocket :: "SmartNodeSocket option"
  authPromise :: "(js_error + string) option"
  socketConnection :: "string option"
  calls :: "call list"

definition initial_world :: world where
  "initial_world = \<lparr>now = 0, uncaught = None, unhandled = [], nodeSocket = None,
     authPromise = None, socketConnection = None, calls = []\<rparr>"

definition the_socket :: "world \<Rightarrow> sock option" where
  "the_socket w = (case nodeSocket w of None \<Rightarrow> None | Some ns \<Rightarrow> socket ns)"

definition upd_socket :: "(sock \<Rightarrow> sock) \<Rightarrow> world \<Rightarrow> world" where
  "upd_socket f w =
     (case nodeSocket w of
        None \<Rightarrow> w
      | Some ns \<Rightarrow>
          (case socket ns of
             None \<Rightarrow> w
           | Some s \<Rightarrow> w\<lparr>nodeSocket := Some (ns\<lparr>socket := Some (f s)\<rparr>)\<rparr>))"

text \<open>
  \<open>socket.on\<close> appends a listener, \<open>socket.off\<close> removes the given listener of the
  given event, \<open>socket.emit\<close> sends one message.
\<close>

definition socket_on :: "string \<Rightarrow> handler \<Rightarrow> world \<Rightarrow> world" where
  "socket_on name h = upd_socket (\<lambda>s. s\<lparr>listeners := listeners s @ [(name, h)]\<rparr>)"

definition socket_off :: "string \<Rightarrow> handler \<Rightarrow> world \<Rightarrow> world" where
  "socket_off name h = upd_socket (\<lambda>s. s\<lparr>listeners := remove1 (name, h) (listeners s)\<rparr>)"

definition socket_emit :: "string \<Rightarrow> wire \<Rightarrow> world \<Rightarrow> world" where
  "socket_emit name m = upd_socket (\<lambda>s. s\<lparr>emitted := emitted s @ [(name, m)]\<rparr>)"

definition call_at :: "world \<Rightarrow> nat \<Rightarrow> call option" where
  "call_at w cid = (if cid < length (calls w) then Some (calls w ! cid) else None)"

definition upd_call :: "nat \<Rightarrow> (call \<Rightarrow> call) \<Rightarrow> world \<Rightarrow> world" where
  "upd_call cid f w = w\<lparr>calls := (calls w)[cid := f (calls w ! cid)]\<rparr>"

definition clearTimeout :: "timer \<Rightarrow> timer" where
  "clearTimeout t = (case t of Armed due \<Rightarrow> Cleared | _ \<Rightarrow> t)"

text \<open>
  \<open>hasResolved = true; clearTimeout(timeout);\<close>, the first two statements of every
  handler once past its guard.
\<close>

definition mark_resolved :: "nat \<Rightarrow> world \<Rightarrow> world" where
  "mark_resolved cid =
     upd_call cid (\<lambda>c. c\<lparr>hasResolved := True, timeout := clearTimeout (timeout c)\<rparr>)"

text \<open>
  The promise's own \<open>resolve\<close>/\<open>reject\<close> (\<open>originalResolve\<close>, \<open>originalReject\<close>):
  the first settlement stays, later ones are ignored.
\<close>

definition settle :: "nat \<Rightarrow> js_error + jsval \<Rightarrow> world \<Rightarrow> world" where
  "settle cid r w =
     (case call_at w cid of
        None \<Rightarrow> w
      | Some c \<Rightarrow> (if promise c = None then upd_call cid (\<lambda>c. c\<lparr>promise := Some r\<rparr>) w else w))"

definition event_name :: "swap_op \<Rightarrow> string" where
  "event_name opn = (case opn of Request \<Rightarrow> ''swapPoolRequest'' | Execute \<Rightarrow> ''swapPoolExecute'')"

text \<open>\<open>cleanup\<close>, and \<open>resolve\<close>/\<open>reject\<close> after the source has wrapped them.\<close>

definition cleanup :: "nat \<Rightarrow> world \<Rightarrow> world" where
  "cleanup cid w =
     (case call_at w cid of
        None \<Rightarrow> w
      | Some c \<Rightarrow>
          socket_off ''disconnect'' (DisconnectHandler cid)
            (socket_off ''error'' (ErrorHandler cid)
              (socket_off (event_name (c_op c)) (ResponseHandler cid) w)))"

definition resolve_call :: "nat \<Rightarrow> jsval \<Rightarrow> world \<Rightarrow> world" where
  "resolve_call cid v w = settle cid (Inr v) (cleanup cid w)"

definition reject_call :: "nat \<Rightarrow> js_error \<Rightarrow> world \<Rightarrow> world" where
  "reject_call cid e w = settle cid (Inl e) (cleanup cid w)"


section \<open>The swap operations\<close>

definition op_word :: "swap_op \<Rightarrow> string" where
  "op_word opn = (case opn of Request \<Rightarrow> ''request'' | Execute \<Rightarrow> ''execution'')"

definition default_code :: "swap_op \<Rightarrow> string" where
  "default_code opn =
     (case opn of Request \<Rightarrow> ''SWAP_REQUEST_ERROR'' | Execute \<Rightarrow> ''SWAP_EXECUTION_ERROR'')"

text \<open>
  The callback handed to \<open>setTimeout(..., 30000)\<close>. It reads the variable \<open>reject\<close>
  when it runs; by then the executor has replaced it with the wrapped version.
\<close>

definition timeout_callback :: "nat \<Rightarrow> world \<Rightarrow> world" where
  "timeout_callback cid w =
     (case call_at w cid of
        None \<Rightarrow> w
      | Some c \<Rightarrow>
          (if \<not> hasResolved c
           then reject_call cid
                  (new_Error (''Swap transaction '' @ op_word (c_op c)
                      @ '' timed out after 30 seconds''))
                  (upd_call cid (\<lambda>c. c\<lparr>hasResolved := True\<rparr>) w)
           else w))"

text \<open>
  \<open>responseHandler\<close>. The two functions differ in the success branch only:
  \<open>swapTransactionRequest\<close> requires \<open>response.payload\<close> and resolves with it,
  \<open>swapTransactionExecute\<close> resolves with the whole response. Inside the \<open>try\<close>
  block one statement can throw, \<open>new Error(errorMessage)\<close>, which converts its
  argument to a string; the \<open>catch\<close> block then rejects with a parse error.
\<close>

definition responseHandler :: "'k sdk \<Rightarrow> nat \<Rightarrow> jsval \<Rightarrow> world \<Rightarrow> world" where
  "responseHandler sdk cid response w =
     (case call_at w cid of
        None \<Rightarrow> w
      | Some c \<Rightarrow>
          (if hasResolved c then w
           else
             (let w1 = mark_resolved cid w
              in if \<not> truthy response \<or> typeof response \<noteq> ''object''
                 then reject_call cid
                        (new_Error ''Invalid response format received from server'') w1
                 else if field response ''status'' = Str ''success''
                 then (case c_op c of
                         Request \<Rightarrow>
                           (if \<not> truthy (field response ''payload'')
                            then reject_call cid
                                   (new_Error ''Server response missing transaction payload'') w1
                            else resolve_call cid (field response ''payload'') w1)
                       | Execute \<Rightarrow> resolve_call cid response w1)
                 else
                   (let errorMessage =
                          js_or (field response ''error'')
                            (js_or (field response ''message'')
                               (Str (''Unknown error occurred during swap '' @ op_word (c_op c))));
                        errorCode =
                          js_or (field response ''errorCode'')
                            (js_or (field response ''code'') (Str (default_code (c_op c))))
                    in case String_of (Number_toString sdk) errorMessage of
                         Inl parseError \<Rightarrow>
                           reject_call cid
                             (new_Error (''Error parsing server response: ''
                                @ message parseError)) w1
                       | Inr msg \<Rightarrow>
                           reject_call cid
                             ((new_Error msg)\<lparr>code := errorCode, err_response := response\<rparr>)
                             w1))))"

text \<open>
  \<open>errorHandler\<close> and \<open>disconnectHandler\<close>. They are ordinary functions called by
  the emitter and have no \<open>try/catch\<close>: an exception escapes them. \<open>error.message\<close>
  throws when the event carries \<open>undefined\<close> or \<open>null\<close>, and the template literal
  throws when its value does not convert to a string.
\<close>

definition errorHandler :: "'k sdk \<Rightarrow> nat \<Rightarrow> jsval \<Rightarrow> world \<Rightarrow> world" where
  "errorHandler sdk cid error w =
     (case call_at w cid of
        None \<Rightarrow> w
      | Some c \<Rightarrow>
          (if hasResolved c then w
           else
             (let w1 = mark_resolved cid w
              in case get_prop error ''message'' of
                   Inl e \<Rightarrow> w1\<lparr>uncaught := Some e\<rparr>
                 | Inr m \<Rightarrow>
                     (case String_of (Number_toString sdk) (js_or m error) of
                        Inl e \<Rightarrow> w1\<lparr>uncaught := Some e\<rparr>
                      | Inr msg \<Rightarrow>
                          reject_call cid
                            ((new_Error (''Socket error during swap '' @ op_word (c_op c)
                                 @ '': '' @ msg))
                               \<lparr>code := Str ''SOCKET_ERROR'', originalError := error\<rparr>) w1))))"

definition disconnectHandler :: "'k sdk \<Rightarrow> nat \<Rightarrow> jsval \<Rightarrow> world \<Rightarrow> world" where
  "disconnectHandler sdk cid rsn w =
     (case call_at w cid of
        None \<Rightarrow> w
      | Some c \<Rightarrow>
          (if hasResolved c then w
           else
             (let w1 = mark_resolved cid w
              in case String_of (Number_toString sdk) rsn of
                   Inl e \<Rightarrow> w1\<lparr>uncaught := Some e\<rparr>
                 | Inr msg \<Rightarrow>
                     reject_call cid
                       ((new_Error (''Socket disconnected during swap '' @ op_word (c_op c)
                            @ '': '' @ msg))
                          \<lparr>code := Str ''SOCKET_DISCONNECT'', reason := rsn\<rparr>) w1)))"

text \<open>
  \<open>socketConnection.socket.getSocket('gateway')\<close>: throws when \<open>socketConnection\<close>
  is \<open>null\<close>; otherwise the stored socket (or a new one, stored, when there is none).
\<close>

definition socketConnection_getSocket :: "world \<Rightarrow> js_error + world" where
  "socketConnection_getSocket w =
     (case socketConnection w of
        None \<Rightarrow> Inl (TypeError_reading ''null'' ''socket'')
      | Some m \<Rightarrow>
          (case nodeSocket w of
             None \<Rightarrow> Inl (TypeError_reading ''undefined'' ''getSocket'')
           | Some ns \<Rightarrow>
               (case getSocket ''gateway'' ns of
                  Inl e \<Rightarrow> Inl e
                | Inr (s, ns') \<Rightarrow> Inr (w\<lparr>nodeSocket := Some ns'\<rparr>))))"

definition new_call :: "swap_op \<Rightarrow> call" where
  "new_call opn = \<lparr>c_op = opn, hasResolved = False, timeout = Unset, promise = None\<rparr>"

text \<open>The \<open>catch\<close> block of both functions.\<close>

definition initialization_error :: "swap_op \<Rightarrow> js_error \<Rightarrow> js_error" where
  "initialization_error opn error =
     (new_Error (''Failed to initiate swap '' @ op_word opn @ '': '' @ message error))
       \<lparr>code := Str ''INITIALIZATION_ERROR'', originalError := error_value error\<rparr>"

text \<open>
  The first half of both executors: the timer, the three listeners, the wrapping of
  \<open>resolve\<close> and \<open>reject\<close>.
\<close>

definition register_call :: "nat \<Rightarrow> swap_op \<Rightarrow> world \<Rightarrow> world" where
  "register_call cid opn w =
     socket_on ''disconnect'' (DisconnectHandler cid)
       (socket_on ''error'' (ErrorHandler cid)
         (socket_on (event_name opn) (ResponseHandler cid)
           (upd_call cid (\<lambda>c. c\<lparr>timeout := Armed (now w + 30000)\<rparr>) w)))"

text \<open>
  \<open>swapTransactionRequest(senderId, swap)\<close>. The new call gets the next free number;
  the result is the state when the executor returns.
\<close>

definition swapTransactionRequest :: "jsval \<Rightarrow> jsval \<Rightarrow> world \<Rightarrow> world" where
  "swapTransactionRequest senderId swap w =
     (let cid = length (calls w);
          w0 = w\<lparr>calls := calls w @ [new_call Request]\<rparr>
      in case socketConnection_getSocket w0 of
           Inl error \<Rightarrow>
             settle cid (Inl (initialization_error Request error)) (mark_resolved cid w0)
         | Inr w1 \<Rightarrow>
             (let w2 = register_call cid Request w1
              in if \<not> truthy senderId \<or> typeof senderId \<noteq> ''string''
                 then reject_call cid
                        (new_Error
                           ''Invalid senderId provided - must be a valid account ID string'')
                        w2
                 else if \<not> truthy swap \<or> typeof swap \<noteq> ''object''
                 then reject_call cid (new_Error ''Invalid swap object provided'') w2
                 else socket_emit ''swapPoolRequest'' (SwapPoolRequestMsg senderId swap) w2))"

text \<open>
  The argument of \<open>swapTransactionExecute\<close>: a plain value (which has no \<open>toBytes\<close>
  function), or a transaction object, whose \<open>toBytes()\<close> returns bytes or throws.
\<close>

datatype signedTransaction =
    NoTransaction jsval
  | Transaction "js_error + byte list"

definition swapTransactionExecute :: "signedTransaction \<Rightarrow> world \<Rightarrow> world" where
  "swapTransactionExecute signedTransaction w =
     (let cid = length (calls w);
          w0 = w\<lparr>calls := calls w @ [new_call Execute]\<rparr>
      in case socketConnection_getSocket w0 of
           Inl error \<Rightarrow>
             settle cid (Inl (initialization_error Execute error)) (mark_resolved cid w0)
         | Inr w1 \<Rightarrow>
             (let w2 = register_call cid Execute w1
              in case signedTransaction of
                   NoTransaction v \<Rightarrow>
                     reject_call cid (new_Error ''Invalid signed transaction provided'') w2
                 | Transaction (Inl error) \<Rightarrow>
                     reject_call cid (initialization_error Execute error)
                       (mark_resolved cid w2)
                 | Transaction (Inr bytes) \<Rightarrow>
                     socket_emit ''swapPoolExecute'' (SwapPoolExecuteMsg bytes) w2))"


section \<open>Connecting and authenticating\<close>

text \<open>
  \<open>Math.floor(Math.random() * nodes[network].length)\<close>. Numbers are IEEE 754 doubles:
  the product of the random number and the length is the exact product rounded to the
  nearest double, ties to the even significand. The doubles around \<open>x\<close> are the
  multiples of \<open>ulp x\<close>, which is \<open>2^(e - 52)\<close> for \<open>2^e \<le> |x| < 2^(e + 1)\<close> and
  \<open>2^-1074\<close> below \<open>2^-1022\<close>. (From \<open>2^1024\<close> on a product overflows; the product
  of a number below 1 and an array length does not get there.) The length of an array
  and \<open>Math.floor\<close> are exact.
\<close>

definition round_half_even :: "real \<Rightarrow> int" where
  "round_half_even q =
     (let f = \<lfloor>q\<rfloor>; d = q - of_int f
      in if d < 1/2 then f else if 1/2 < d then f + 1 else if even f then f else f + 1)"

definition ulp :: "real \<Rightarrow> real" where
  "ulp x = 2 powr of_int (max \<lfloor>log 2 \<bar>x\<bar>\<rfloor> (- 1022) - 52)"

definition round_double :: "real \<Rightarrow> real" where
  "round_double x =
     (if x = 0 then 0 else of_int (round_half_even (x / ulp x)) * ulp x)"

text \<open>
  \<open>random\<close> is the value of \<open>Math.random()\<close>, a double with \<open>0 \<le> random < 1\<close>
  (so at most \<open>1 - 2^-53\<close>). An index outside the array reads \<open>undefined\<close>.
\<close>

definition random_index :: "nat \<Rightarrow> real \<Rightarrow> int" where
  "random_index n random = \<lfloor>round_double (random * real n)\<rfloor>"

definition element_at :: "'a list \<Rightarrow> int \<Rightarrow> 'a option" where
  "element_at xs i = (if 0 \<le> i \<and> i < int (length xs) then Some (xs ! nat i) else None)"

text \<open>The promise of \<open>smartNodeSocket\<close>: the first settlement stays.\<close>

definition resolve_auth :: "string \<Rightarrow> world \<Rightarrow> world" where
  "resolve_auth m w = (if authPromise w = None then w\<lparr>authPromise := Some (Inr m)\<rparr> else w)"

definition reject_auth :: "js_error \<Rightarrow> world \<Rightarrow> world" where
  "reject_auth e w = (if authPromise w = None then w\<lparr>authPromise := Some (Inl e)\<rparr> else w)"

text \<open>\<open>nodeSocket.getNode().operator\<close>.\<close>

definition nodeSocket_operator :: "world \<Rightarrow> js_error + string" where
  "nodeSocket_operator w =
     (case nodeSocket w of
        None \<Rightarrow> Inl (TypeError_reading ''undefined'' ''getNode'')
      | Some ns \<Rightarrow>
          (case getNode ns of
             None \<Rightarrow> Inl (TypeError_reading ''undefined'' ''operator'')
           | Some n \<Rightarrow> Inr (operator n)))"

text \<open>
  The listeners of \<open>'connect'\<close> and \<open>'disconnect'\<close> log a line that names
  \<open>nodeSocket.getNode().operator\<close>; the listener of \<open>'errors'\<close> logs the event.
  All three are \<open>async\<close> functions: an exception inside one becomes a rejection
  nobody handles.
\<close>

definition on_connect :: "world \<Rightarrow> world" where
  "on_connect w =
     (case nodeSocket_operator w of
        Inl e \<Rightarrow> w\<lparr>unhandled := unhandled w @ [e]\<rparr>
      | Inr node_operator \<Rightarrow> w)"

definition on_disconnect :: "world \<Rightarrow> world" where
  "on_disconnect w =
     (case nodeSocket_operator w of
        Inl e \<Rightarrow> w\<lparr>unhandled := unhandled w @ [e]\<rparr>
      | Inr node_operator \<Rightarrow> w)"

text \<open>
  The listener of \<open>'authenticate'\<close> (the verdict of the node). It is an \<open>async\<close>
  function without \<open>try/catch\<close>: an exception inside it becomes a rejection nobody
  handles, and the emitter goes on with the next listener.
\<close>

definition on_authenticate :: "account \<Rightarrow> jsval \<Rightarrow> world \<Rightarrow> world" where
  "on_authenticate acct event w =
     (case get_prop event ''isValidSignature'' of
        Inl e \<Rightarrow> w\<lparr>unhandled := unhandled w @ [e]\<rparr>
      | Inr isValidSignature \<Rightarrow>
          (case nodeSocket_operator w of
             Inl e \<Rightarrow> w\<lparr>unhandled := unhandled w @ [e]\<rparr>
           | Inr node_operator \<Rightarrow>
               (if truthy isValidSignature
                then resolve_auth
                       (''account '' @ account_id acct @ '' authenticated to node ''
                          @ node_operator @ ''.'') w
                else reject_auth
                       (new_Error
                          (''Authentication failed: Invalid signature for account ''
                             @ account_id acct @ '' on node '' @ node_operator)) w)))"

text \<open>
  The listener of \<open>'authentication'\<close> (the challenge of the node), with its
  \<open>try/catch\<close>: whatever throws on the way rejects the promise and emits nothing.
\<close>

definition sign_challenge :: "'k sdk \<Rightarrow> account \<Rightarrow> jsval \<Rightarrow> js_error + wire" where
  "sign_challenge sdk acct event =
     (case get_prop event ''signedData'' of
        Inl e \<Rightarrow> Inl e
      | Inr signedData \<Rightarrow>
          (case get_prop signedData ''signature'' of
             Inl e \<Rightarrow> Inl e
           | Inr sig \<Rightarrow>
               (case Uint8Array sdk sig of
                  Inl e \<Rightarrow> Inl e
                | Inr server_sig \<Rightarrow>
                    (let payload = \<lparr>serverSignature = server_sig,
                                     originalPayload = field event ''payload''\<rparr>
                     in case fromString sdk (private_key acct) of
                          Inl e \<Rightarrow> Inl e
                        | Inr privateKey \<Rightarrow>
                            (let bytes = Buffer_from sdk (JSON_stringify sdk payload);
                                 signature = sign sdk privateKey bytes
                             in Inr (AuthenticateMsg payload signature (account_id acct)))))))"

definition on_authentication :: "'k sdk \<Rightarrow> account \<Rightarrow> jsval \<Rightarrow> world \<Rightarrow> world" where
  "on_authentication sdk acct event w =
     (case sign_challenge sdk acct event of
        Inl authError \<Rightarrow>
          reject_auth (new_Error (''Authentication process failed: '' @ message authError)) w
      | Inr m \<Rightarrow> socket_emit ''authenticate'' m w)"

text \<open>
  \<open>smartNodeSocket(network)\<close>, over a catalogue and an account table: the state when
  the executor returns. Everything the \<open>try\<close> block throws rejects the promise.
  For a key that the catalogue does not have, \<open>nodes[network]\<close> is \<open>undefined\<close>
  and reading its \<open>length\<close> throws, unless \<open>Object.prototype\<close> has the key: then
  \<open>nodes[network]\<close> is a function or \<open>Object.prototype\<close>, which has no element at
  any index, \<open>randomNode\<close> is \<open>undefined\<close> and reading its \<open>url\<close> throws.
  (\<open>connect()\<close> only starts the transport; its effect arrives as events.)
\<close>

definition smartNodeSocket ::
  "smart_node list per_network \<Rightarrow> account per_network \<Rightarrow> string \<Rightarrow> real \<Rightarrow> world" where
  "smartNodeSocket catalogue accounts network random =
     (case own_key network of
        None \<Rightarrow>
          (if network \<in> set Object_prototype_keys
           then reject_auth (TypeError_reading ''undefined'' ''url'') initial_world
           else reject_auth (TypeError_reading ''undefined'' ''length'') initial_world)
      | Some k \<Rightarrow>
          (let candidates = entry catalogue k
           in case element_at candidates (random_index (length candidates) random) of
                None \<Rightarrow> reject_auth (TypeError_reading ''undefined'' ''url'') initial_world
              | Some randomNode \<Rightarrow>
                  (case getSocket ''gateway''
                          (new_SmartNodeSocket (Some randomNode)
                             (account_id (entry accounts k))) of
                     Inl e \<Rightarrow> reject_auth e initial_world
                   | Inr (s, ns) \<Rightarrow>
                       socket_on ''authentication'' OnAuthentication
                         (socket_on ''authenticate'' OnAuthenticate
                           (socket_on ''errors'' OnErrors
                             (socket_on ''disconnect'' OnDisconnect
                               (socket_on ''connect'' OnConnect
                                 (initial_world\<lparr>nodeSocket := Some ns\<rparr>))))))))"

text \<open>\<open>socketConnection = await smartNodeSocket(network)\<close> in \<open>main\<close>.\<close>

definition main_await_socket :: "world \<Rightarrow> world" where
  "main_await_socket w =
     (case authPromise w of
        Some (Inr m) \<Rightarrow> w\<lparr>socketConnection := Some m\<rparr>
      | _ \<Rightarrow> w)"

section \<open>Events\<close>

text \<open>
  What can happen to a session: the socket delivers an event to the listeners
  registered under its name, time passes, or the program calls one of the two swap
  functions.
\<close>

datatype action =
    Incoming string jsval
  | Elapse nat
  | Call_Request jsval jsval
  | Call_Execute signedTransaction

fun run_handler :: "'k sdk \<Rightarrow> account \<Rightarrow> handler \<Rightarrow> jsval \<Rightarrow> world \<Rightarrow> world" where
  "run_handler sdk acct OnConnect v w = on_connect w"
| "run_handler sdk acct OnDisconnect v w = on_disconnect w"
| "run_handler sdk acct OnErrors v w = w"
| "run_handler sdk acct OnAuthenticate v w = on_authenticate acct v w"
| "run_handler sdk acct OnAuthentication v w = on_authentication sdk acct v w"
| "run_handler sdk acct (ResponseHandler cid) v w = responseHandler sdk cid v w"
| "run_handler sdk acct (ErrorHandler cid) v w = errorHandler sdk cid v w"
| "run_handler sdk acct (DisconnectHandler cid) v w = disconnectHandler sdk cid v w"

text \<open>
  The emitter calls the listeners that were registered when the event arrived, in
  registration order; an exception that escapes one ends the dispatch (and the
  process).
\<close>

fun run_listeners :: "'k sdk \<Rightarrow> account \<Rightarrow> handler list \<Rightarrow> jsval \<Rightarrow> world \<Rightarrow> world" where
  "run_listeners sdk acct [] v w = w"
| "run_listeners sdk acct (h # hs) v w =
     (let w' = run_handler sdk acct h v w
      in if uncaught w' \<noteq> None then w' else run_listeners sdk acct hs v w')"

text \<open>The library keeps \<open>socket.connected\<close> up to date before it calls the listeners.\<close>

definition socket_io_status :: "string \<Rightarrow> world \<Rightarrow> world" where
  "socket_io_status name w =
     (if name = ''connect'' then upd_socket (\<lambda>s. s\<lparr>connected := True\<rparr>) w
      else if name = ''disconnect'' then upd_socket (\<lambda>s. s\<lparr>connected := False\<rparr>) w
      else w)"

definition listeners_of :: "string \<Rightarrow> world \<Rightarrow> handler list" where
  "listeners_of name w =
     (case the_socket w of
        None \<Rightarrow> []
      | Some s \<Rightarrow> map snd (filter (\<lambda>l. fst l = name) (listeners s)))"

definition deliver :: "'k sdk \<Rightarrow> account \<Rightarrow> string \<Rightarrow> jsval \<Rightarrow> world \<Rightarrow> world" where
  "deliver sdk acct name v w =
     (let w1 = socket_io_status name w
      in run_listeners sdk acct (listeners_of name w1) v w1)"

text \<open>A timer whose time has come fires once; timers fire in the order of their calls.\<close>

definition fire_timer :: "nat \<Rightarrow> world \<Rightarrow> world" where
  "fire_timer cid w =
     (case call_at w cid of
        None \<Rightarrow> w
      | Some c \<Rightarrow>
          (case timeout c of
             Armed due \<Rightarrow>
               (if due \<le> now w
                then timeout_callback cid (upd_call cid (\<lambda>c. c\<lparr>timeout := Fired\<rparr>) w)
                else w)
           | _ \<Rightarrow> w))"

definition elapse :: "nat \<Rightarrow> world \<Rightarrow> world" where
  "elapse d w = fold fire_timer [0..<length (calls w)] (w\<lparr>now := now w + d\<rparr>)"

text \<open>
  When a task is over the runtime looks at the rejections nobody handled; where these
  end the process, the first of them becomes the uncaught exception.
\<close>

definition end_of_task :: "'k sdk \<Rightarrow> world \<Rightarrow> world" where
  "end_of_task sdk w =
     (case unhandled w of
        [] \<Rightarrow> w
      | e # es \<Rightarrow>
          (if rejections_end_process sdk \<and> uncaught w = None then w\<lparr>uncaught := Some e\<rparr>
           else w))"

text \<open>
  One action is one task. Nothing happens any more once the process has ended. (The
  promises the program returns are awaited by their caller, as \<open>main\<close> does, so their
  rejections are handled.)
\<close>

definition step :: "'k sdk \<Rightarrow> account \<Rightarrow> action \<Rightarrow> world \<Rightarrow> world" where
  "step sdk acct a w =
     (if uncaught w \<noteq> None then w
      else end_of_task sdk
             (case a of
                Incoming name v \<Rightarrow> deliver sdk acct name v w
              | Elapse d \<Rightarrow> elapse d w
              | Call_Request senderId swap \<Rightarrow> swapTransactionRequest senderId swap w
              | Call_Execute t \<Rightarrow> swapTransactionExecute t w))"

definition run :: "'k sdk \<Rightarrow> account \<Rightarrow> action list \<Rightarrow> world \<Rightarrow> world" where
  "run sdk acct acts w = fold (step sdk acct) acts w"


section \<open>Observations, well-formed states, example data\<close>

definition listeners_w :: "world \<Rightarrow> (string \<times> handler) list" where
  "listeners_w w = (case the_socket w of None \<Rightarrow> [] | Some s \<Rightarrow> listeners s)"

definition emitted_w :: "world \<Rightarrow> (string \<times> wire) list" where
  "emitted_w w = (case the_socket w of None \<Rightarrow> [] | Some s \<Rightarrow> emitted s)"

definition promise_at :: "world \<Rightarrow> nat \<Rightarrow> (js_error + jsval) option" where
  "promise_at w cid = (case call_at w cid of None \<Rightarrow> None | Some c \<Rightarrow> promise c)"

text \<open>
  Every listener sits under the event name the program registers it for, and a swap
  handler belongs to a call that was made. All states the program builds are so.
\<close>

fun listener_ok :: "swap_op list \<Rightarrow> string \<times> handler \<Rightarrow> bool" where
  "listener_ok ops (n, OnConnect) = (n = ''connect'')"
| "listener_ok ops (n, OnDisconnect) = (n = ''disconnect'')"
| "listener_ok ops (n, OnErrors) = (n = ''errors'')"
| "listener_ok ops (n, OnAuthenticate) = (n = ''authenticate'')"
| "listener_ok ops (n, OnAuthentication) = (n = ''authentication'')"
| "listener_ok ops (n, ResponseHandler c) = (c < length ops \<and> n = event_name (ops ! c))"
| "listener_ok ops (n, ErrorHandler c) = (c < length ops \<and> n = ''error'')"
| "listener_ok ops (n, DisconnectHandler c) = (c < length ops \<and> n = ''disconnect'')"

definition listeners_ok :: "world \<Rightarrow> bool" where
  "listeners_ok w = list_all (listener_ok (map c_op (calls w))) (listeners_w w)"

text \<open>
  A live session whose \<open>socketConnection\<close> is set and whose socket exists: what
  \<open>main\<close> has after \<open>await smartNodeSocket(network)\<close>.
\<close>

definition ready :: "world \<Rightarrow> bool" where
  "ready w = (uncaught w = None \<and> socketConnection w \<noteq> None \<and> the_socket w \<noteq> None
     \<and> listeners_ok w)"

text \<open>
  The connection counts as authenticated while \<open>socketConnection\<close> is set (which
  \<open>main\<close> does after a positive verdict only) and the socket is connected.
\<close>

definition authenticated :: "world \<Rightarrow> bool" where
  "authenticated w =
     (socketConnection w \<noteq> None
      \<and> (case the_socket w of None \<Rightarrow> False | Some s \<Rightarrow> connected s))"




fun auth_event :: "action \<Rightarrow> bool" where
  "auth_event (Incoming name v) = (name = ''authenticate'' \<or> name = ''authentication'')"
| "auth_event a = False"


text \<open>
  Example collaborators, account and session for the concrete runs below. The example
  runtime is one where an unhandled rejection ends the process; the one number outside
  the safe range that the examples print is \<open>10^21\<close>.
\<close>

definition demo_sdk :: "nat sdk" where
  "demo_sdk =
     \<lparr>fromString = (\<lambda>s. if s = ''key'' then Inr 7 else Inl (new_Error ''bad key'')),
      sign = (\<lambda>k bs. bs @ [word_of_nat k]),
      JSON_stringify = (\<lambda>p. ''json''),
      Buffer_from = map (\<lambda>c. word_of_nat (of_char c)),
      Uint8Array =
        (\<lambda>v. case v of
               Arr xs \<Rightarrow> Inr (map (\<lambda>x. case x of Num n \<Rightarrow> word_of_int n | _ \<Rightarrow> 0) xs)
             | _ \<Rightarrow> Inr []),
      Number_toString = (\<lambda>n. ''1e+21''),
      rejections_end_process = True\<rparr>"

definition demo_account :: account where
  "demo_account = \<lparr>account_id = ''0.0.1000'', private_key = ''key''\<rparr>"

definition demo_accounts :: "account per_network" where
  "demo_accounts = \<lparr>mainnet = demo_account, testnet = demo_account\<rparr>"

definition demo_challenge :: jsval where
  "demo_challenge =
     Obj [(''payload'', Str ''abc''),
          (''signedData'', Obj [(''signature'', Arr [Num 1, Num 2, Num 3])])]"

definition demo_node :: smart_node where
  "demo_node = \<lparr>operator = ''0.0.467726'',
     publicKey = ''302a300506032b6570032100ae51a8b5d22e40d68fec62e20488132182f304cddbf5cd494d62cb18a06b71c1'',
     url = ''https://testnet-sn1.hsuite.network''\<rparr>"

definition auth_listeners :: "(string \<times> handler) list" where
  "auth_listeners =
     [(''connect'', OnConnect), (''disconnect'', OnDisconnect), (''errors'', OnErrors),
      (''authenticate'', OnAuthenticate), (''authentication'', OnAuthentication)]"

text \<open>The session right after \<open>smartNodeSocket('testnet')\<close> drew the first node.\<close>

definition demo_connecting :: world where
  "demo_connecting =
     initial_world\<lparr>nodeSocket := Some
       \<lparr>node = Some demo_node, wallet = ''0.0.1000'',
        socket = Some \<lparr>sock_url = ''wss://testnet-sn1.hsuite.network/gateway'',
                       query_wallet = ''0.0.1000'', listeners = auth_listeners,
                       emitted = [], connected = False\<rparr>\<rparr>\<rparr>"

text \<open>The same session after the handshake, with \<open>socketConnection\<close> stored.\<close>

definition demo_authenticated :: world where
  "demo_authenticated =
     main_await_socket
       (run demo_sdk demo_account
          [Incoming ''connect'' Undefined,
           Incoming ''authentication'' demo_challenge,
           Incoming ''authenticate'' (Obj [(''isValidSignature'', Bool True)])]
          demo_connecting)"

text \<open>Further states of the example session, each one swap call or one event later.\<close>

definition demo_requested :: world where
  "demo_requested = swapTransactionRequest (Str ''0.0.2000'') (Obj []) demo_authenticated"

definition demo_executing :: world where
  "demo_executing = swapTransactionExecute (Transaction (Inr [1, 2])) demo_authenticated"

definition demo_rejected :: world where
  "demo_rejected = swapTransactionRequest (Str []) (Obj []) demo_authenticated"

definition demo_execute_rejected :: world where
  "demo_execute_rejected = swapTransactionExecute (NoTransaction Null) demo_authenticated"

definition demo_disconnected :: world where
  "demo_disconnected =
     deliver demo_sdk demo_account ''disconnect'' (Str ''transport close'') demo_authenticated"

section \<open>Proof vocabulary\<close>

text \<open>
  What every listener and timer callback leaves alone: the clock, the stored
  connection, the operation of each call; it registers no listener, and it never changes
  a promise that is settled.
\<close>

definition frame :: "world \<Rightarrow> world \<Rightarrow> bool" where
  "frame w w' =
     (now w' = now w \<and> socketConnection w' = socketConnection w
      \<and> map c_op (calls w') = map c_op (calls w)
      \<and> (the_socket w' = None) = (the_socket w = None)
      \<and> set (listeners_w w') \<subseteq> set (listeners_w w)
      \<and> (\<forall>k r. promise_at w k = Some r \<longrightarrow> promise_at w' k = Some r))"



section \<open>The catalogue and the socket wrapper\<close>

text \<open>
  C9. The static catalogue has exactly the two networks \<open>mainnet\<close> and \<open>testnet\<close>;
  within each network the \<open>url\<close> of every descriptor is unique, while operator
  identifiers repeat (in \<open>mainnet\<close>).
\<close>

theorem catalogue_urls_unique:
  "\<exists>ms ts. nodes = [(''mainnet'', ms), (''testnet'', ts)]
     \<and> distinct (map url ms) \<and> distinct (map url ts)
     \<and> \<not> distinct (map operator ms)"
  by (simp add: nodes_def)

text \<open>
  C10. \<open>getSocket\<close> is a lazy initialiser: on an object built with a node and no
  socket yet, the first call creates the socket for the path of that call and stores
  it; every later call, with any path, returns that stored socket and leaves the object
  as it is (no second socket is created, the later path is ignored). The same holds for
  any object that holds a socket.
\<close>

theorem getSocket_lazy_idempotent:
  "(\<exists>s. getSocket p (new_SmartNodeSocket (Some n) w)
          = Inr (s, \<lparr>node = Some n, wallet = w, socket = Some s\<rparr>)
        \<and> sock_url s = replace ''http://'' ''ws://'' (replace ''https://'' ''wss://'' (url n))
                          @ ''/'' @ p
        \<and> (\<forall>q. getSocket q \<lparr>node = Some n, wallet = w, socket = Some s\<rparr>
                  = Inr (s, \<lparr>node = Some n, wallet = w, socket = Some s\<rparr>)))
   \<and> getSocket q (this\<lparr>socket := Some s'\<rparr>) = Inr (s', this\<lparr>socket := Some s'\<rparr>)"
  by (simp add: getSocket_def init_def new_SmartNodeSocket_def io_def Let_def)

section \<open>Endpoint selection\<close>

subsection \<open>Rounding to the nearest double\<close>

lemma round_half_even_bounds:
  "q - 1/2 \<le> of_int (round_half_even q) \<and> of_int (round_half_even q) \<le> q + 1/2"
  unfolding round_half_even_def Let_def by (auto; linarith)

lemma ulp_pos: "0 < ulp x"
  by (simp add: ulp_def)

lemma round_double_near:
  "\<bar>round_double x - x\<bar> \<le> ulp x / 2"
proof (cases "x = 0")
  case True
  then show ?thesis using ulp_pos [of 0] by (simp add: round_double_def)
next
  case False
  define u where "u = ulp x"
  have u: "0 < u" unfolding u_def by (rule ulp_pos)
  define k where "k = round_half_even (x / u)"
  have b: "x / u - 1/2 \<le> of_int k" "of_int k \<le> x / u + 1/2"
    unfolding k_def using round_half_even_bounds [of "x / u"] by simp_all
  have "(x / u - 1/2) * u \<le> of_int k * u" using b(1) u by (simp only: mult_le_cancel_right_pos)
  then have 1: "x - u / 2 \<le> of_int k * u" using u by (simp add: algebra_simps)
  have "of_int k * u \<le> (x / u + 1/2) * u" using b(2) u by (simp only: mult_le_cancel_right_pos)
  then have 2: "of_int k * u \<le> x + u / 2" using u by (simp add: algebra_simps)
  have "round_double x = of_int k * u" using False by (simp add: round_double_def k_def u_def)
  then show ?thesis using 1 2 unfolding u_def by linarith
qed

lemma ulp_le:
  assumes "0 < x"
  shows "ulp x \<le> max (x / 2 ^ 52) (1 / 2 ^ 1074)"
proof (cases "\<lfloor>log 2 \<bar>x\<bar>\<rfloor> \<le> - 1022")
  case True
  then have "max \<lfloor>log 2 \<bar>x\<bar>\<rfloor> (- 1022) = - 1022" by simp
  then have "ulp x = 2 powr of_int (- 1022 - 52)" unfolding ulp_def by (rule arg_cong)
  then have "ulp x = 2 powr (- 1074)" by simp
  also have "\<dots> = 1 / 2 ^ 1074" by (simp add: powr_minus_divide)
  finally show ?thesis by simp
next
  case False
  then have m: "max \<lfloor>log 2 \<bar>x\<bar>\<rfloor> (- 1022) = \<lfloor>log 2 x\<rfloor>" using assms by simp
  have "of_int \<lfloor>log 2 x\<rfloor> \<le> log 2 x" by simp
  then have "2 powr (of_int \<lfloor>log 2 x\<rfloor>) \<le> 2 powr (log 2 x)" by simp
  also have "\<dots> = x" using assms by simp
  finally have le: "2 powr (of_int \<lfloor>log 2 x\<rfloor>) \<le> x" .
  have "ulp x = 2 powr (of_int \<lfloor>log 2 x\<rfloor> - 52)" by (simp add: ulp_def m)
  also have "\<dots> = 2 powr (of_int \<lfloor>log 2 x\<rfloor>) / 2 ^ 52"
    by (simp add: powr_diff)
  also have "\<dots> \<le> x / 2 ^ 52" using le by (simp add: divide_right_mono)
  finally show ?thesis by simp
qed


lemma round_double_nonneg:
  assumes "0 \<le> x"
  shows "0 \<le> round_double x"
proof (cases "x = 0")
  case True
  then show ?thesis by (simp add: round_double_def)
next
  case False
  have u: "0 < ulp x" by (rule ulp_pos)
  have "0 < x / ulp x" using assms False u by simp
  then have "- 1/2 < real_of_int (round_half_even (x / ulp x))"
    using round_half_even_bounds [of "x / ulp x"] by linarith
  then have "0 \<le> round_half_even (x / ulp x)" by linarith
  then show ?thesis using False u by (simp add: round_double_def)
qed

lemma round_error_small:
  assumes "0 < x" "x < real n"
  shows "\<bar>round_double x - x\<bar> < real n / 2 ^ 53"
proof -
  have n: "1 \<le> real n" using assms by (cases n) simp_all
  have a: "x / 2 ^ 52 < real n / 2 ^ 52" using assms(2) by (simp add: divide_strict_right_mono)
  have "(1::real) / 2 ^ 1074 < 1 / 2 ^ 52" by simp
  also have "\<dots> \<le> real n / 2 ^ 52" using n by (simp add: divide_right_mono)
  finally have b: "(1::real) / 2 ^ 1074 < real n / 2 ^ 52" .
  have "ulp x < real n / 2 ^ 52" using ulp_le [OF assms(1)] a b by linarith
  then have "ulp x / 2 < real n / 2 ^ 53" by simp
  then show ?thesis using round_double_near [of x] by linarith
qed

lemma random_index_range:
  assumes "0 \<le> r" "r \<le> 1 - 1 / 2 ^ 53" "0 < n"
  shows "0 \<le> random_index n r \<and> random_index n r < int n"
proof -
  define x where "x = r * real n"
  have n: "0 < real n" using assms(3) by simp
  have x0: "0 \<le> x" unfolding x_def using assms(1) by simp
  have "x \<le> (1 - 1 / 2 ^ 53) * real n"
    unfolding x_def using assms(2) n by (simp only: mult_le_cancel_right_pos)
  then have x1: "x \<le> real n - real n / 2 ^ 53" by (simp add: algebra_simps)
  have lo: "0 \<le> round_double x" using x0 by (rule round_double_nonneg)
  have hi: "round_double x < real n"
  proof (cases "x = 0")
    case True
    then show ?thesis using n by (simp add: round_double_def)
  next
    case False
    then have p: "0 < x" using x0 by simp
    have "x < real n" using x1 n by (smt (verit) divide_pos_pos zero_less_numeral zero_less_power)
    then have "\<bar>round_double x - x\<bar> < real n / 2 ^ 53" using p by (intro round_error_small)
    then show ?thesis using x1 by linarith
  qed
  have "0 \<le> \<lfloor>round_double x\<rfloor>" using lo by simp
  moreover have "\<lfloor>round_double x\<rfloor> < int n" using hi by (simp add: floor_less_iff)
  ultimately show ?thesis by (simp add: random_index_def x_def)
qed

lemma random_index_inner:
  assumes i: "i < n"
    and lo: "real i / real n + 1 / 2 ^ 53 \<le> r"
    and hi: "r \<le> (real i + 1) / real n - 1 / 2 ^ 53"
  shows "random_index n r = int i"
proof -
  define x where "x = r * real n"
  have n: "0 < real n" using i by simp
  have e: "0 < real n / 2 ^ 53" using n by simp
  have "(real i / real n + 1 / 2 ^ 53) * real n \<le> x"
    unfolding x_def using lo n by (simp only: mult_le_cancel_right_pos)
  moreover have "(real i / real n + 1 / 2 ^ 53) * real n = real i + real n / 2 ^ 53"
    using n by (simp add: field_simps)
  ultimately have x0: "real i + real n / 2 ^ 53 \<le> x" by simp
  have "x \<le> ((real i + 1) / real n - 1 / 2 ^ 53) * real n"
    unfolding x_def using hi n by (simp only: mult_le_cancel_right_pos)
  moreover have "((real i + 1) / real n - 1 / 2 ^ 53) * real n = real i + 1 - real n / 2 ^ 53"
    using n by (simp add: field_simps)
  ultimately have x1: "x \<le> real i + 1 - real n / 2 ^ 53" by simp
  have p: "0 < x" using x0 e by linarith
  have "real i + 1 \<le> real n" using i by linarith
  then have "x < real n" using x1 e by linarith
  then have "\<bar>round_double x - x\<bar> < real n / 2 ^ 53" using p by (intro round_error_small)
  then have "real i \<le> round_double x \<and> round_double x < real i + 1"
    using x0 x1 by linarith
  then have "\<lfloor>round_double x\<rfloor> = int i" by (simp add: floor_eq_iff)
  then show ?thesis by (simp add: random_index_def x_def)
qed

lemma ulp_binade:
  assumes "2 ^ k \<le> x" "x < 2 * 2 ^ k"
  shows "ulp x = 2 ^ k / 2 ^ 52"
proof -
  have p: "0 < x" using assms(1) by (smt (verit) zero_less_power)
  have "real k \<le> log 2 x" using assms(1) p by (simp add: le_log_iff powr_realpow)
  moreover have "log 2 x < real k + 1"
    using assms(2) p by (simp add: log_less_iff powr_add powr_realpow)
  ultimately have "\<lfloor>log 2 x\<rfloor> = int k" by (simp add: floor_eq_iff)
  then have "ulp x = 2 powr of_int (int k - 52)" using p by (simp add: ulp_def)
  also have "\<dots> = 2 powr (real k) / 2 powr 52" by (simp add: powr_diff)
  also have "\<dots> = 2 ^ k / 2 ^ 52" by (simp add: powr_realpow)
  finally show ?thesis .
qed

lemma rounding_example:
  "random_index 7 (5146971002709138 / 2 ^ 53) = 4
   \<and> (5146971002709138 / 2 ^ 53 :: real) < 4 / 7
   \<and> \<lfloor>(5146971002709138 / 2 ^ 53 :: real) * 7\<rfloor> = 3"
proof -
  define x :: real where "x = 5146971002709138 / 2 ^ 53 * 7"
  have "2 ^ 1 \<le> x" "x < 2 * 2 ^ 1" by (simp_all add: x_def)
  then have u: "ulp x = 2 ^ 1 / 2 ^ 52" by (rule ulp_binade)
  have q: "x / ulp x = 18014398509481983 / 2" unfolding u by (simp add: x_def)
  have f: "\<lfloor>18014398509481983 / 2 :: real\<rfloor> = 9007199254740991" by (simp add: floor_eq_iff)
  have "round_half_even (x / ulp x) = 9007199254740992"
    unfolding q round_half_even_def Let_def f by simp
  moreover have "x \<noteq> 0" by (simp add: x_def)
  ultimately have "round_double x = 9007199254740992 * ulp x" by (simp add: round_double_def)
  then have "round_double x = 4" unfolding u by simp
  then have 1: "random_index 7 (5146971002709138 / 2 ^ 53) = 4"
    by (simp add: random_index_def x_def)
  have 3: "\<lfloor>(5146971002709138 / 2 ^ 53 :: real) * 7\<rfloor> = 3" by (simp add: floor_eq_iff)
  show ?thesis using 1 3 by simp
qed

lemma random_index_0: "random_index n 0 = 0"
  by (simp add: random_index_def round_double_def)

lemma random_index_example: "random_index 2 (3/4) = 1"
proof -
  define x :: real where "x = 3/4 * 2"
  have "2 ^ 0 \<le> x" "x < 2 * 2 ^ 0" by (simp_all add: x_def)
  then have u: "ulp x = 2 ^ 0 / 2 ^ 52" by (rule ulp_binade)
  have q: "x / ulp x = 6755399441055744" unfolding u by (simp add: x_def)
  have "round_half_even (x / ulp x) = 6755399441055744"
    unfolding q round_half_even_def Let_def by simp
  moreover have "x \<noteq> 0" by (simp add: x_def)
  ultimately have "round_double x = 6755399441055744 * ulp x" by (simp add: round_double_def)
  then have "round_double x = 3/2" unfolding u by simp
  then have "\<lfloor>round_double x\<rfloor> = 1" by (simp add: floor_eq_iff)
  then show ?thesis by (simp add: random_index_def x_def)
qed

subsection \<open>The drawn node\<close>

lemma element_at_Nil: "element_at [] i = None"
  by (simp add: element_at_def)

lemma element_at_member: "element_at xs i = Some x \<Longrightarrow> x \<in> set xs"
  by (auto simp: element_at_def split: if_splits)

lemma smartNodeSocket_created:
  assumes "own_key network = Some k"
    and "element_at (entry catalogue k) (random_index (length (entry catalogue k)) random)
           = Some n"
  shows "smartNodeSocket catalogue accounts network random
     = initial_world\<lparr>nodeSocket := Some
         \<lparr>node = Some n, wallet = account_id (entry accounts k),
          socket = Some ((io (replace ''http://'' ''ws://'' (replace ''https://'' ''wss://'' (url n))
                              @ ''/gateway'') (account_id (entry accounts k)))
                         \<lparr>listeners := auth_listeners\<rparr>)\<rparr>\<rparr>"
  using assms
  by (simp add: smartNodeSocket_def getSocket_def init_def new_SmartNodeSocket_def Let_def
        socket_on_def upd_socket_def initial_world_def io_def auth_listeners_def)

lemma smartNodeSocket_rejected:
  assumes "own_key network = Some k"
    and "element_at (entry catalogue k) (random_index (length (entry catalogue k)) random)
           = None"
  shows "smartNodeSocket catalogue accounts network random
     = reject_auth (TypeError_reading ''undefined'' ''url'') initial_world"
  using assms by (simp add: smartNodeSocket_def Let_def)

lemma table_of_nodes:
  "entry (table_of nodes) Mainnet = snd (nodes ! 0)"
  "entry (table_of nodes) Testnet = snd (nodes ! 1)"
  by (simp_all add: entry_def table_of_def nodes_def)

text \<open>
  C8, as stated, fails. The code has no error of its own for an unrecognised network
  or an empty catalogue: the key \<open>constructor\<close>, which the catalogue does not have,
  and a network whose list is empty are rejected with one and the same \<open>TypeError\<close> of
  the runtime. And the draw is not exactly uniform: with seven candidates the random
  number \<open>0.5714285714285714\<close> (the double \<open>5146971002709138 / 2^53\<close>), which lies
  below \<open>4/7\<close>, selects index 4, because the product is rounded to \<open>4.0\<close>.
\<close>

theorem selection_errors_counterexample:
  "authPromise (smartNodeSocket (table_of nodes) demo_accounts ''constructor'' (1/2))
     = Some (Inl (TypeError_reading ''undefined'' ''url''))
   \<and> authPromise (smartNodeSocket ((table_of nodes)\<lparr>testnet := []\<rparr>) demo_accounts ''testnet'' (1/2))
     = Some (Inl (TypeError_reading ''undefined'' ''url''))
   \<and> err_name (TypeError_reading ''undefined'' ''url'') = ''TypeError''
   \<and> random_index 7 (5146971002709138 / 2 ^ 53) = 4
   \<and> (5146971002709138 / 2 ^ 53 :: real) < 4 / 7"
proof -
  have 1: "authPromise (smartNodeSocket (table_of nodes) demo_accounts ''constructor'' (1/2))
     = Some (Inl (TypeError_reading ''undefined'' ''url''))"
    by (simp add: smartNodeSocket_def own_key_def Object_prototype_keys_def reject_auth_def
        initial_world_def)
  have "own_key ''testnet'' = Some Testnet" by (simp add: own_key_def)
  moreover have "element_at (entry ((table_of nodes)\<lparr>testnet := []\<rparr>) Testnet)
      (random_index (length (entry ((table_of nodes)\<lparr>testnet := []\<rparr>) Testnet)) (1/2)) = None"
    by (simp add: entry_def element_at_Nil)
  ultimately have "smartNodeSocket ((table_of nodes)\<lparr>testnet := []\<rparr>) demo_accounts ''testnet'' (1/2)
     = reject_auth (TypeError_reading ''undefined'' ''url'') initial_world"
    by (rule smartNodeSocket_rejected)
  then have 2: "authPromise (smartNodeSocket ((table_of nodes)\<lparr>testnet := []\<rparr>) demo_accounts ''testnet'' (1/2))
     = Some (Inl (TypeError_reading ''undefined'' ''url''))"
    by (simp add: reject_auth_def initial_world_def)
  have 3: "err_name (TypeError_reading ''undefined'' ''url'') = ''TypeError''"
    by (simp add: TypeError_reading_def)
  show ?thesis using 1 2 3 rounding_example by simp
qed

text \<open>
  C8, amended. Endpoint selection inside \<open>smartNodeSocket\<close>. There are no errors of
  the kinds \<open>InvalidNetwork\<close> and \<open>EmptyRegistry\<close>; the failures are the
  \<open>TypeError\<close>s of the runtime, which reject the promise. A key found nowhere fails
  with the \<open>TypeError\<close> of reading \<open>length\<close> of \<open>undefined\<close>; a key that only
  \<open>Object.prototype\<close> has, and a network with an empty candidate list, fail with the
  \<open>TypeError\<close> of reading \<open>url\<close> of \<open>undefined\<close>. For one of the two networks with
  a non-empty list and a random double in \<open>[0, 1)\<close>, the node of the session is the
  candidate at index \<open>\<lfloor>random * length\<rfloor>\<close> (the product rounded to a double), which
  lies within the list, and the promise is pending. Whatever the random number, the
  node of a session that was created is one of the candidates of that network. The
  draw is uniform up to rounding: every random number between \<open>i/n + 2^-53\<close> and
  \<open>(i+1)/n - 2^-53\<close> selects index \<open>i\<close>.
\<close>

theorem select_node:
  "(own_key network = None \<and> network \<notin> set Object_prototype_keys \<longrightarrow>
      authPromise (smartNodeSocket catalogue accounts network random)
        = Some (Inl (TypeError_reading ''undefined'' ''length'')))
   \<and> (own_key network = None \<and> network \<in> set Object_prototype_keys \<longrightarrow>
      authPromise (smartNodeSocket catalogue accounts network random)
        = Some (Inl (TypeError_reading ''undefined'' ''url'')))
   \<and> (own_key network = Some k \<and> entry catalogue k = [] \<longrightarrow>
      authPromise (smartNodeSocket catalogue accounts network random)
        = Some (Inl (TypeError_reading ''undefined'' ''url'')))
   \<and> (own_key network = Some k \<and> entry catalogue k \<noteq> []
        \<and> 0 \<le> random \<and> random \<le> 1 - 1 / 2 ^ 53 \<longrightarrow>
      (\<exists>i < length (entry catalogue k).
         random_index (length (entry catalogue k)) random = int i
         \<and> map_option getNode (nodeSocket (smartNodeSocket catalogue accounts network random))
             = Some (Some (entry catalogue k ! i))
         \<and> entry catalogue k ! i \<in> set (entry catalogue k))
      \<and> authPromise (smartNodeSocket catalogue accounts network random) = None)
   \<and> (own_key network = Some k
        \<and> nodeSocket (smartNodeSocket catalogue accounts network random) = Some ns \<longrightarrow>
      (\<exists>n \<in> set (entry catalogue k). getNode ns = Some n))
   \<and> (i < n \<and> real i / real n + 1 / 2 ^ 53 \<le> r \<and> r \<le> (real i + 1) / real n - 1 / 2 ^ 53 \<longrightarrow>
      random_index n r = int i)
   \<and> err_name (TypeError_reading base p) = ''TypeError''"
proof (intro conjI impI)
  assume "own_key network = None \<and> network \<notin> set Object_prototype_keys"
  then show "authPromise (smartNodeSocket catalogue accounts network random)
        = Some (Inl (TypeError_reading ''undefined'' ''length''))"
    by (simp add: smartNodeSocket_def reject_auth_def initial_world_def)
next
  assume "own_key network = None \<and> network \<in> set Object_prototype_keys"
  then show "authPromise (smartNodeSocket catalogue accounts network random)
        = Some (Inl (TypeError_reading ''undefined'' ''url''))"
    by (simp add: smartNodeSocket_def reject_auth_def initial_world_def)
next
  assume "own_key network = Some k \<and> entry catalogue k = []"
  then show "authPromise (smartNodeSocket catalogue accounts network random)
        = Some (Inl (TypeError_reading ''undefined'' ''url''))"
    by (simp add: smartNodeSocket_def Let_def element_at_Nil reject_auth_def initial_world_def)
next
  assume h: "own_key network = Some k \<and> entry catalogue k \<noteq> []
        \<and> 0 \<le> random \<and> random \<le> 1 - 1 / 2 ^ 53"
  let ?cs = "entry catalogue k"
  have rng: "0 \<le> random_index (length ?cs) random
       \<and> random_index (length ?cs) random < int (length ?cs)"
    using h by (intro random_index_range) simp_all
  define j where "j = nat (random_index (length ?cs) random)"
  have j1: "j < length ?cs"
    using rng unfolding j_def by linarith
  have j2: "random_index (length ?cs) random = int j"
    using rng unfolding j_def by linarith
  have el: "element_at ?cs (random_index (length ?cs) random) = Some (?cs ! j)"
    using j1 j2 by (simp add: element_at_def)
  have k: "own_key network = Some k" using h by simp
  note eq = smartNodeSocket_created [OF k el, of accounts]
  have ns: "map_option getNode (nodeSocket (smartNodeSocket catalogue accounts network random))
             = Some (Some (?cs ! j))"
    unfolding eq by (simp add: getNode_def)
  show "\<exists>i < length ?cs. random_index (length ?cs) random = int i
         \<and> map_option getNode (nodeSocket (smartNodeSocket catalogue accounts network random))
             = Some (Some (?cs ! i))
         \<and> ?cs ! i \<in> set ?cs"
    using j1 j2 ns by (intro exI [of _ j]) simp
  show "authPromise (smartNodeSocket catalogue accounts network random) = None"
    unfolding eq by (simp add: initial_world_def)
next
  assume h: "own_key network = Some k
        \<and> nodeSocket (smartNodeSocket catalogue accounts network random) = Some ns"
  then have k: "own_key network = Some k" by simp
  let ?cs = "entry catalogue k"
  show "\<exists>n \<in> set ?cs. getNode ns = Some n"
  proof (cases "element_at ?cs (random_index (length ?cs) random)")
    case None
    have "nodeSocket (smartNodeSocket catalogue accounts network random) = None"
      unfolding smartNodeSocket_rejected [OF k None]
      by (simp add: reject_auth_def initial_world_def)
    then show ?thesis using h by simp
  next
    case (Some n)
    have "getNode ns = Some n"
      using h unfolding smartNodeSocket_created [OF k Some, of accounts]
      by (auto simp: getNode_def)
    then show ?thesis using element_at_member [OF Some] by blast
  qed
next
  assume "i < n \<and> real i / real n + 1 / 2 ^ 53 \<le> r \<and> r \<le> (real i + 1) / real n - 1 / 2 ^ 53"
  then show "random_index n r = int i" by (intro random_index_inner) simp_all
next
  show "err_name (TypeError_reading base p) = ''TypeError''"
    by (simp add: TypeError_reading_def)
qed

theorem select_node_witness:
  "authPromise (smartNodeSocket (table_of nodes) demo_accounts ''devnet'' (1/2))
        = Some (Inl (TypeError_reading ''undefined'' ''length''))
   \<and> authPromise (smartNodeSocket (table_of nodes) demo_accounts ''toString'' (1/2))
        = Some (Inl (TypeError_reading ''undefined'' ''url''))
   \<and> authPromise (smartNodeSocket \<lparr>mainnet = [demo_node], testnet = []\<rparr> demo_accounts
                    ''testnet'' (1/2))
        = Some (Inl (TypeError_reading ''undefined'' ''url''))
   \<and> map_option getNode
       (nodeSocket (smartNodeSocket
          \<lparr>mainnet = [], testnet = [demo_node, demo_node\<lparr>url := ''http://localhost''\<rparr>]\<rparr>
          demo_accounts ''testnet'' (3/4)))
       = Some (Some (demo_node\<lparr>url := ''http://localhost''\<rparr>))
   \<and> random_index 2 (3/4) = 1"
proof -
  let ?t = "\<lparr>mainnet = [], testnet = [demo_node, demo_node\<lparr>url := ''http://localhost''\<rparr>]\<rparr>"
  let ?cs = "[demo_node, demo_node\<lparr>url := ''http://localhost''\<rparr>]"
  have a: "own_key ''devnet'' = None \<and> ''devnet'' \<notin> set Object_prototype_keys"
    by (simp add: own_key_def Object_prototype_keys_def)
  have b: "own_key ''toString'' = None \<and> ''toString'' \<in> set Object_prototype_keys"
    by (simp add: own_key_def Object_prototype_keys_def)
  have c: "own_key ''testnet'' = Some Testnet
      \<and> entry \<lparr>mainnet = [demo_node], testnet = []\<rparr> Testnet = []"
    by (simp add: own_key_def entry_def)
  have e: "entry ?t Testnet = ?cs" by (simp add: entry_def)
  have d: "own_key ''testnet'' = Some Testnet \<and> entry ?t Testnet \<noteq> []
      \<and> (0::real) \<le> 3/4 \<and> (3/4::real) \<le> 1 - 1 / 2 ^ 53"
    by (simp add: own_key_def entry_def)
  have u: "(1::nat) < 2 \<and> real 1 / real 2 + 1 / 2 ^ 53 \<le> (3/4 :: real)
      \<and> (3/4 :: real) \<le> (real 1 + 1) / real 2 - 1 / 2 ^ 53"
    by simp
  from select_node [of "''devnet''" "table_of nodes" demo_accounts "1/2"] a
  have 1: "authPromise (smartNodeSocket (table_of nodes) demo_accounts ''devnet'' (1/2))
        = Some (Inl (TypeError_reading ''undefined'' ''length''))" by blast
  from select_node [of "''toString''" "table_of nodes" demo_accounts "1/2"] b
  have 2: "authPromise (smartNodeSocket (table_of nodes) demo_accounts ''toString'' (1/2))
        = Some (Inl (TypeError_reading ''undefined'' ''url''))" by blast
  from select_node [of "''testnet''" "\<lparr>mainnet = [demo_node], testnet = []\<rparr>" demo_accounts
      "1/2" Testnet] c
  have 3: "authPromise (smartNodeSocket \<lparr>mainnet = [demo_node], testnet = []\<rparr> demo_accounts
                    ''testnet'' (1/2))
        = Some (Inl (TypeError_reading ''undefined'' ''url''))" by blast
  from select_node [of "''testnet''" ?t demo_accounts "3/4" Testnet _ 1 2 "3/4"] u
  have 5: "random_index 2 (3/4) = 1" by simp
  from select_node [of "''testnet''" ?t demo_accounts "3/4" Testnet] d
  obtain i where i: "i < length (entry ?t Testnet)"
    "random_index (length (entry ?t Testnet)) (3/4) = int i"
    "map_option getNode (nodeSocket (smartNodeSocket ?t demo_accounts ''testnet'' (3/4)))
             = Some (Some (entry ?t Testnet ! i))" by blast
  have "random_index 2 (3/4) = int i" using i(2) unfolding e by (simp add: numeral_2_eq_2)
  then have "int i = 1" using 5 by simp
  then have "i = 1" by linarith
  with i(3) have 4: "map_option getNode
       (nodeSocket (smartNodeSocket ?t demo_accounts ''testnet'' (3/4)))
       = Some (Some (demo_node\<lparr>url := ''http://localhost''\<rparr>))"
    unfolding e by simp
  show ?thesis using 1 2 3 4 5 by blast
qed

section \<open>How the primitives act on the state\<close>

lemma upd_socket_fields [simp]:
  "calls (upd_socket f w) = calls w"
  "uncaught (upd_socket f w) = uncaught w"
  "now (upd_socket f w) = now w"
  "unhandled (upd_socket f w) = unhandled w"
  "authPromise (upd_socket f w) = authPromise w"
  "socketConnection (upd_socket f w) = socketConnection w"
  by (simp_all add: upd_socket_def split: option.splits)

lemma the_socket_upd_socket [simp]: "the_socket (upd_socket f w) = map_option f (the_socket w)"
  by (simp add: the_socket_def upd_socket_def split: option.splits)

lemma the_socket_world_update [simp]:
  "the_socket (w\<lparr>calls := cs\<rparr>) = the_socket w"
  "the_socket (w\<lparr>uncaught := u\<rparr>) = the_socket w"
  "the_socket (w\<lparr>unhandled := us\<rparr>) = the_socket w"
  "the_socket (w\<lparr>authPromise := a\<rparr>) = the_socket w"
  "the_socket (w\<lparr>socketConnection := sc\<rparr>) = the_socket w"
  "the_socket (w\<lparr>now := t\<rparr>) = the_socket w"
  by (simp_all add: the_socket_def)

lemma call_at_world_update [simp]:
  "call_at (w\<lparr>uncaught := u\<rparr>) k = call_at w k"
  "call_at (w\<lparr>unhandled := us\<rparr>) k = call_at w k"
  "call_at (w\<lparr>authPromise := a\<rparr>) k = call_at w k"
  "call_at (w\<lparr>socketConnection := sc\<rparr>) k = call_at w k"
  "call_at (w\<lparr>now := t\<rparr>) k = call_at w k"
  "call_at (w\<lparr>nodeSocket := ns\<rparr>) k = call_at w k"
  "call_at (upd_socket f w) k = call_at w k"
  by (simp_all add: call_at_def)

lemma upd_call_fields [simp]:
  "the_socket (upd_call cid f w) = the_socket w"
  "uncaught (upd_call cid f w) = uncaught w"
  "now (upd_call cid f w) = now w"
  "unhandled (upd_call cid f w) = unhandled w"
  "authPromise (upd_call cid f w) = authPromise w"
  "socketConnection (upd_call cid f w) = socketConnection w"
  "length (calls (upd_call cid f w)) = length (calls w)"
  by (simp_all add: upd_call_def the_socket_def)

lemma call_at_upd_call [simp]:
  "call_at (upd_call cid f w) k = (if k = cid then map_option f (call_at w k) else call_at w k)"
  by (simp add: call_at_def upd_call_def)

lemma ops_upd_call:
  "(\<And>c. c_op (f c) = c_op c) \<Longrightarrow> map c_op (calls (upd_call cid f w)) = map c_op (calls w)"
proof -
  assume f: "\<And>c. c_op (f c) = c_op c"
  show ?thesis
  proof (cases "cid < length (calls w)")
    case True
    then have "(map c_op (calls w))[cid := c_op (calls w ! cid)] = map c_op (calls w)"
      by (metis list_update_id nth_map)
    then show ?thesis by (simp add: upd_call_def map_update f)
  next
    case False
    then have "(calls w)[cid := f (calls w ! cid)] = calls w"
      by (simp add: list_update_beyond)
    then show ?thesis by (simp add: upd_call_def)
  qed
qed

lemma listeners_w_simps [simp]:
  "listeners_w (upd_call cid f w) = listeners_w w"
  "listeners_w (w\<lparr>calls := cs\<rparr>) = listeners_w w"
  "listeners_w (w\<lparr>uncaught := u\<rparr>) = listeners_w w"
  "listeners_w (w\<lparr>unhandled := us\<rparr>) = listeners_w w"
  "listeners_w (w\<lparr>authPromise := a\<rparr>) = listeners_w w"
  "listeners_w (w\<lparr>now := t\<rparr>) = listeners_w w"
  "listeners_w (socket_off n h w) = remove1 (n, h) (listeners_w w)"
  "listeners_w (socket_emit n m w) = listeners_w w"
  by (simp_all add: listeners_w_def socket_off_def socket_emit_def split: option.splits)

lemma listeners_w_socket_on:
  "listeners_w (socket_on n h w) = (if the_socket w = None then [] else listeners_w w @ [(n, h)])"
  by (simp add: listeners_w_def socket_on_def split: option.splits)

lemma emitted_w_simps [simp]:
  "emitted_w (upd_call cid f w) = emitted_w w"
  "emitted_w (w\<lparr>calls := cs\<rparr>) = emitted_w w"
  "emitted_w (w\<lparr>uncaught := u\<rparr>) = emitted_w w"
  "emitted_w (w\<lparr>unhandled := us\<rparr>) = emitted_w w"
  "emitted_w (w\<lparr>authPromise := a\<rparr>) = emitted_w w"
  "emitted_w (w\<lparr>now := t\<rparr>) = emitted_w w"
  "emitted_w (socket_off n h w) = emitted_w w"
  "emitted_w (socket_on n h w) = emitted_w w"
  by (simp_all add: emitted_w_def socket_off_def socket_on_def split: option.splits)

lemma emitted_w_socket_emit:
  "emitted_w (socket_emit n m w) = (if the_socket w = None then [] else emitted_w w @ [(n, m)])"
  by (simp add: emitted_w_def socket_emit_def split: option.splits)

lemma socket_op_fields [simp]:
  "calls (socket_on n h w) = calls w" "calls (socket_off n h w) = calls w"
  "calls (socket_emit n m w) = calls w"
  "uncaught (socket_on n h w) = uncaught w" "uncaught (socket_off n h w) = uncaught w"
  "uncaught (socket_emit n m w) = uncaught w"
  "now (socket_on n h w) = now w" "now (socket_off n h w) = now w"
  "now (socket_emit n m w) = now w"
  "unhandled (socket_on n h w) = unhandled w" "unhandled (socket_off n h w) = unhandled w"
  "unhandled (socket_emit n m w) = unhandled w"
  "authPromise (socket_on n h w) = authPromise w" "authPromise (socket_off n h w) = authPromise w"
  "authPromise (socket_emit n m w) = authPromise w"
  "socketConnection (socket_on n h w) = socketConnection w"
  "socketConnection (socket_off n h w) = socketConnection w"
  "socketConnection (socket_emit n m w) = socketConnection w"
  "call_at (socket_on n h w) k = call_at w k" "call_at (socket_off n h w) k = call_at w k"
  "call_at (socket_emit n m w) k = call_at w k"
  "(the_socket (socket_on n h w) = None) = (the_socket w = None)"
  "(the_socket (socket_off n h w) = None) = (the_socket w = None)"
  "(the_socket (socket_emit n m w) = None) = (the_socket w = None)"
  by (simp_all add: socket_on_def socket_off_def socket_emit_def)

lemma settle_fields [simp]:
  "the_socket (settle cid r w) = the_socket w"
  "uncaught (settle cid r w) = uncaught w"
  "now (settle cid r w) = now w"
  "unhandled (settle cid r w) = unhandled w"
  "authPromise (settle cid r w) = authPromise w"
  "socketConnection (settle cid r w) = socketConnection w"
  "length (calls (settle cid r w)) = length (calls w)"
  "listeners_w (settle cid r w) = listeners_w w"
  "emitted_w (settle cid r w) = emitted_w w"
  by (simp_all add: settle_def split: option.splits)

lemma call_at_settle [simp]:
  "call_at (settle cid r w) k =
     (if k = cid
      then map_option (\<lambda>c. if promise c = None then c\<lparr>promise := Some r\<rparr> else c) (call_at w k)
      else call_at w k)"
  by (simp add: settle_def split: option.splits)

lemma ops_settle [simp]: "map c_op (calls (settle cid r w)) = map c_op (calls w)"
  by (simp add: settle_def ops_upd_call split: option.splits)

lemma mark_resolved_fields [simp]:
  "the_socket (mark_resolved cid w) = the_socket w"
  "uncaught (mark_resolved cid w) = uncaught w"
  "now (mark_resolved cid w) = now w"
  "unhandled (mark_resolved cid w) = unhandled w"
  "authPromise (mark_resolved cid w) = authPromise w"
  "socketConnection (mark_resolved cid w) = socketConnection w"
  "length (calls (mark_resolved cid w)) = length (calls w)"
  "listeners_w (mark_resolved cid w) = listeners_w w"
  "emitted_w (mark_resolved cid w) = emitted_w w"
  "map c_op (calls (mark_resolved cid w)) = map c_op (calls w)"
  by (simp_all add: mark_resolved_def ops_upd_call)

lemma call_at_mark_resolved [simp]:
  "call_at (mark_resolved cid w) k =
     (if k = cid
      then map_option (\<lambda>c. c\<lparr>hasResolved := True, timeout := clearTimeout (timeout c)\<rparr>)
             (call_at w k)
      else call_at w k)"
  by (simp add: mark_resolved_def)

lemma cleanup_fields [simp]:
  "calls (cleanup cid w) = calls w"
  "uncaught (cleanup cid w) = uncaught w"
  "now (cleanup cid w) = now w"
  "unhandled (cleanup cid w) = unhandled w"
  "authPromise (cleanup cid w) = authPromise w"
  "socketConnection (cleanup cid w) = socketConnection w"
  "call_at (cleanup cid w) k = call_at w k"
  "(the_socket (cleanup cid w) = None) = (the_socket w = None)"
  "emitted_w (cleanup cid w) = emitted_w w"
  by (simp_all add: cleanup_def split: option.splits)

lemma listeners_w_cleanup:
  "listeners_w (cleanup cid w) =
     (case call_at w cid of
        None \<Rightarrow> listeners_w w
      | Some c \<Rightarrow>
          remove1 (''disconnect'', DisconnectHandler cid)
            (remove1 (''error'', ErrorHandler cid)
              (remove1 (event_name (c_op c), ResponseHandler cid) (listeners_w w))))"
  by (simp add: cleanup_def split: option.splits)

lemma set_listeners_w_cleanup: "set (listeners_w (cleanup cid w)) \<subseteq> set (listeners_w w)"
proof -
  have "\<And>x y z. set (remove1 x (remove1 y (remove1 z (listeners_w w)))) \<subseteq> set (listeners_w w)"
    by (meson order_trans set_remove1_subset)
  then show ?thesis by (simp add: listeners_w_cleanup split: option.splits)
qed

section \<open>Listeners and callbacks keep the frame\<close>

lemma frame_refl [simp]: "frame w w"
  by (simp add: frame_def)

lemma frame_trans: "frame w w1 \<Longrightarrow> frame w1 w2 \<Longrightarrow> frame w w2"
  unfolding frame_def by auto

lemma frame_length: "frame w w' \<Longrightarrow> length (calls w') = length (calls w)"
  unfolding frame_def using map_eq_imp_length_eq by blast

lemma frame_listeners_ok: "frame w w' \<Longrightarrow> listeners_ok w \<Longrightarrow> listeners_ok w'"
  unfolding frame_def listeners_ok_def list_all_iff by auto


lemma frame_mark_resolved: "frame w (mark_resolved cid w)"
  by (auto simp: frame_def promise_at_def split: option.splits)

lemma frame_settle: "frame w (settle cid r w)"
  by (auto simp: frame_def promise_at_def split: option.splits)

lemma frame_cleanup: "frame w (cleanup cid w)"
  using set_listeners_w_cleanup [of cid w]
  by (auto simp: frame_def promise_at_def split: option.splits)

lemma frame_reject_call: "frame w (reject_call cid e w)"
  unfolding reject_call_def by (rule frame_trans [OF frame_cleanup frame_settle])

lemma frame_resolve_call: "frame w (resolve_call cid v w)"
  unfolding resolve_call_def by (rule frame_trans [OF frame_cleanup frame_settle])

lemma frame_then_reject: "frame w w1 \<Longrightarrow> frame w (reject_call cid e w1)"
  by (rule frame_trans [OF _ frame_reject_call])

lemma frame_then_resolve: "frame w w1 \<Longrightarrow> frame w (resolve_call cid v w1)"
  by (rule frame_trans [OF _ frame_resolve_call])

lemma frame_uncaught: "frame w (w\<lparr>uncaught := u\<rparr>)"
  by (simp add: frame_def promise_at_def)

lemma frame_unhandled: "frame w (w\<lparr>unhandled := u\<rparr>)"
  by (simp add: frame_def promise_at_def)

lemma frame_authPromise: "frame w (w\<lparr>authPromise := a\<rparr>)"
  by (simp add: frame_def promise_at_def)

lemma frame_socket_emit: "frame w (socket_emit n m w)"
  by (simp add: frame_def promise_at_def)

lemma frame_set_hasResolved: "frame w (upd_call cid (\<lambda>c. c\<lparr>hasResolved := True\<rparr>) w)"
  by (auto simp: frame_def promise_at_def ops_upd_call split: option.splits)

lemma frame_set_Fired: "frame w (upd_call cid (\<lambda>c. c\<lparr>timeout := Fired\<rparr>) w)"
  by (auto simp: frame_def promise_at_def ops_upd_call split: option.splits)

lemma frame_responseHandler: "frame w (responseHandler sdk cid v w)"
  unfolding responseHandler_def Let_def
  by (auto split: option.splits swap_op.splits sum.splits
      intro!: frame_then_reject frame_then_resolve frame_mark_resolved)

lemma frame_errorHandler: "frame w (errorHandler sdk cid v w)"
  unfolding errorHandler_def Let_def
  by (auto split: option.splits sum.splits
      intro!: frame_then_reject frame_mark_resolved
      intro: frame_trans [OF frame_mark_resolved frame_uncaught])

lemma frame_disconnectHandler: "frame w (disconnectHandler sdk cid v w)"
  unfolding disconnectHandler_def Let_def
  by (auto split: option.splits sum.splits
      intro!: frame_then_reject frame_mark_resolved
      intro: frame_trans [OF frame_mark_resolved frame_uncaught])

lemma frame_timeout_callback: "frame w (timeout_callback cid w)"
  unfolding timeout_callback_def
  by (auto split: option.splits intro!: frame_then_reject frame_set_hasResolved)

lemma frame_fire_timer: "frame w (fire_timer cid w)"
  unfolding fire_timer_def
  by (auto split: option.splits timer.splits
      intro: frame_trans [OF frame_set_Fired frame_timeout_callback])

lemma frame_on_connect: "frame w (on_connect w)" "frame w (on_disconnect w)"
  unfolding on_connect_def on_disconnect_def
  by (auto split: sum.splits intro: frame_unhandled)

lemma frame_on_authenticate: "frame w (on_authenticate acct v w)"
  unfolding on_authenticate_def resolve_auth_def reject_auth_def
  by (auto split: sum.splits intro: frame_unhandled frame_authPromise)

lemma frame_on_authentication: "frame w (on_authentication sdk acct v w)"
  unfolding on_authentication_def reject_auth_def
  by (auto split: sum.splits intro: frame_authPromise frame_socket_emit)

lemma frame_run_handler: "frame w (run_handler sdk acct h v w)"
  by (cases h)
     (simp_all add: frame_responseHandler frame_errorHandler frame_disconnectHandler
        frame_on_authenticate frame_on_authentication frame_on_connect)

lemma frame_run_listeners: "frame w (run_listeners sdk acct hs v w)"
proof (induction hs arbitrary: w)
  case Nil
  show ?case by simp
next
  case (Cons h hs)
  have 1: "frame w (run_handler sdk acct h v w)" by (rule frame_run_handler)
  have 2: "frame (run_handler sdk acct h v w)
             (run_listeners sdk acct hs v (run_handler sdk acct h v w))"
    by (rule Cons.IH)
  show ?case using 1 frame_trans [OF 1 2] by (simp add: Let_def)
qed

lemma listeners_w_connected [simp]:
  "listeners_w (upd_socket (\<lambda>s. s\<lparr>connected := b\<rparr>) w) = listeners_w w"
  by (cases "the_socket w") (simp_all add: listeners_w_def)

lemma emitted_w_connected [simp]:
  "emitted_w (upd_socket (\<lambda>s. s\<lparr>connected := b\<rparr>) w) = emitted_w w"
  by (cases "the_socket w") (simp_all add: emitted_w_def)

lemma socket_io_status_fields [simp]:
  "calls (socket_io_status name w) = calls w"
  "uncaught (socket_io_status name w) = uncaught w"
  "now (socket_io_status name w) = now w"
  "unhandled (socket_io_status name w) = unhandled w"
  "authPromise (socket_io_status name w) = authPromise w"
  "socketConnection (socket_io_status name w) = socketConnection w"
  "call_at (socket_io_status name w) k = call_at w k"
  "listeners_w (socket_io_status name w) = listeners_w w"
  "emitted_w (socket_io_status name w) = emitted_w w"
  "(the_socket (socket_io_status name w) = None) = (the_socket w = None)"
  by (simp_all add: socket_io_status_def)

lemma frame_socket_io_status: "frame w (socket_io_status name w)"
  by (simp add: frame_def promise_at_def)

lemma frame_deliver: "frame w (deliver sdk acct name v w)"
  unfolding deliver_def Let_def
  by (rule frame_trans [OF frame_socket_io_status frame_run_listeners])

lemma frame_fold_fire_timer: "frame w (fold fire_timer cids w)"
proof (induction cids arbitrary: w)
  case Nil
  show ?case by simp
next
  case (Cons c cids)
  show ?case using frame_trans [OF frame_fire_timer Cons.IH] by simp
qed

section \<open>Independence of calls\<close>

subsection \<open>A handler touches its own call only\<close>

lemma call_at_reject_call [simp]:
  "call_at (reject_call cid e w) k =
     (if k = cid
      then map_option (\<lambda>c. if promise c = None then c\<lparr>promise := Some (Inl e)\<rparr> else c)
             (call_at w k)
      else call_at w k)"
  by (simp add: reject_call_def)

lemma call_at_resolve_call [simp]:
  "call_at (resolve_call cid v w) k =
     (if k = cid
      then map_option (\<lambda>c. if promise c = None then c\<lparr>promise := Some (Inr v)\<rparr> else c)
             (call_at w k)
      else call_at w k)"
  by (simp add: resolve_call_def)

lemma settle_call_fields [simp]:
  "uncaught (reject_call cid e w) = uncaught w"
  "uncaught (resolve_call cid v w) = uncaught w"
  "now (reject_call cid e w) = now w"
  "now (resolve_call cid v w) = now w"
  "socketConnection (reject_call cid e w) = socketConnection w"
  "socketConnection (resolve_call cid v w) = socketConnection w"
  "authPromise (reject_call cid e w) = authPromise w"
  "authPromise (resolve_call cid v w) = authPromise w"
  "emitted_w (reject_call cid e w) = emitted_w w"
  "emitted_w (resolve_call cid v w) = emitted_w w"
  "(the_socket (reject_call cid e w) = None) = (the_socket w = None)"
  "(the_socket (resolve_call cid v w) = None) = (the_socket w = None)"
  by (simp_all add: reject_call_def resolve_call_def)






lemma on_connect_calls [simp]:
  "call_at (on_connect w) k = call_at w k"
  "uncaught (on_connect w) = uncaught w"
  "authPromise (on_connect w) = authPromise w"
  "call_at (on_disconnect w) k = call_at w k"
  "uncaught (on_disconnect w) = uncaught w"
  "authPromise (on_disconnect w) = authPromise w"
  by (simp_all add: on_connect_def on_disconnect_def split: sum.splits)

lemma on_authenticate_calls [simp]:
  "call_at (on_authenticate acct v w) k = call_at w k"
  "uncaught (on_authenticate acct v w) = uncaught w"
  by (simp_all add: on_authenticate_def resolve_auth_def reject_auth_def split: sum.splits)

lemma on_authentication_calls [simp]:
  "call_at (on_authentication sdk acct v w) k = call_at w k"
  "uncaught (on_authentication sdk acct v w) = uncaught w"
  by (simp_all add: on_authentication_def reject_auth_def split: sum.splits)


lemma responseHandler_uncaught [simp]:
  "uncaught (responseHandler sdk cid v w) = uncaught w"
  by (simp add: responseHandler_def Let_def split: option.splits swap_op.splits sum.splits)

lemma timeout_callback_uncaught [simp]:
  "uncaught (timeout_callback cid w) = uncaught w"
  by (simp add: timeout_callback_def split: option.splits)

lemma fire_timer_uncaught [simp]:
  "uncaught (fire_timer cid w) = uncaught w"
  by (simp add: fire_timer_def split: option.splits timer.splits)



subsection \<open>Which listeners a quiet event reaches\<close>

lemma listeners_of_alt:
  "listeners_of name w = map snd (filter (\<lambda>l. fst l = name) (listeners_w w))"
  by (simp add: listeners_of_def listeners_w_def split: option.splits)


section \<open>Swap calls\<close>

subsection \<open>The state after a swap call\<close>

lemma getSocket_ready:
  assumes "socketConnection w \<noteq> None" "the_socket w \<noteq> None"
  shows "socketConnection_getSocket w = Inr w"
proof -
  from assms(2) obtain ns s where ns: "nodeSocket w = Some ns" "socket ns = Some s"
    by (auto simp: the_socket_def split: option.splits)
  from assms(1) obtain m where m: "socketConnection w = Some m" by auto
  show ?thesis by (simp add: socketConnection_getSocket_def m ns getSocket_def)
qed

lemma call_at_append [simp]:
  "call_at (w\<lparr>calls := calls w @ [c]\<rparr>) k =
     (if k < length (calls w) then call_at w k
      else if k = length (calls w) then Some c else None)"
  by (auto simp: call_at_def nth_append)

lemma register_call_fields [simp]:
  "uncaught (register_call cid opn w) = uncaught w"
  "now (register_call cid opn w) = now w"
  "socketConnection (register_call cid opn w) = socketConnection w"
  "authPromise (register_call cid opn w) = authPromise w"
  "emitted_w (register_call cid opn w) = emitted_w w"
  "(the_socket (register_call cid opn w) = None) = (the_socket w = None)"
  "map c_op (calls (register_call cid opn w)) = map c_op (calls w)"
  "length (calls (register_call cid opn w)) = length (calls w)"
  by (simp_all add: register_call_def ops_upd_call)

lemma call_at_register_call [simp]:
  "call_at (register_call cid opn w) k =
     (if k = cid
      then map_option (\<lambda>c. c\<lparr>timeout := Armed (now w + 30000)\<rparr>) (call_at w k)
      else call_at w k)"
  by (simp add: register_call_def)

lemma listeners_w_register_call:
  "the_socket w \<noteq> None \<Longrightarrow>
   listeners_w (register_call cid opn w) =
     listeners_w w @ [(event_name opn, ResponseHandler cid), (''error'', ErrorHandler cid),
                      (''disconnect'', DisconnectHandler cid)]"
  by (simp add: register_call_def listeners_w_socket_on)

lemma listener_ok_append: "listener_ok ops l \<Longrightarrow> listener_ok (ops @ [x]) l"
  by (cases l, cases "snd l") (auto simp: nth_append)

lemma listeners_ok_register:
  assumes ok: "listeners_ok w" and s: "the_socket w \<noteq> None"
  shows "listeners_ok (register_call (length (calls w)) opn (w\<lparr>calls := calls w @ [new_call opn]\<rparr>))"
proof -
  let ?w0 = "w\<lparr>calls := calls w @ [new_call opn]\<rparr>"
  let ?cid = "length (calls w)"
  have ops: "map c_op (calls (register_call ?cid opn ?w0)) = map c_op (calls w) @ [opn]"
    by (simp add: new_call_def)
  have ls: "listeners_w (register_call ?cid opn ?w0) =
     listeners_w w @ [(event_name opn, ResponseHandler ?cid), (''error'', ErrorHandler ?cid),
                      (''disconnect'', DisconnectHandler ?cid)]"
    using s by (simp add: listeners_w_register_call)
  have old: "list_all (listener_ok (map c_op (calls w) @ [opn])) (listeners_w w)"
    using ok by (auto simp: listeners_ok_def list_all_iff intro: listener_ok_append)
  show ?thesis
    unfolding listeners_ok_def ops ls using old by (simp add: nth_append)
qed

lemma ready_world_update [simp]:
  "ready (w\<lparr>now := t\<rparr>) = ready w"
  by (simp add: ready_def listeners_ok_def)

lemma ready_frame: "frame w w' \<Longrightarrow> uncaught w' = uncaught w \<Longrightarrow> ready w \<Longrightarrow> ready w'"
  unfolding ready_def using frame_listeners_ok [of w w'] by (auto simp: frame_def)

lemma ready_registered:
  assumes "ready w"
  shows "ready (register_call (length (calls w)) opn (w\<lparr>calls := calls w @ [new_call opn]\<rparr>))"
  using assms listeners_ok_register [of w opn] by (simp add: ready_def)

text \<open>With the connection stored, the executor comes down to this.\<close>

lemma swapTransactionRequest_ready:
  assumes "socketConnection w \<noteq> None" "the_socket w \<noteq> None"
  shows "swapTransactionRequest senderId swap w =
     (let cid = length (calls w);
          w2 = register_call cid Request (w\<lparr>calls := calls w @ [new_call Request]\<rparr>)
      in if \<not> truthy senderId \<or> typeof senderId \<noteq> ''string''
         then reject_call cid
                (new_Error ''Invalid senderId provided - must be a valid account ID string'') w2
         else if \<not> truthy swap \<or> typeof swap \<noteq> ''object''
         then reject_call cid (new_Error ''Invalid swap object provided'') w2
         else socket_emit ''swapPoolRequest'' (SwapPoolRequestMsg senderId swap) w2)"
proof -
  have "socketConnection_getSocket (w\<lparr>calls := calls w @ [new_call Request]\<rparr>)
          = Inr (w\<lparr>calls := calls w @ [new_call Request]\<rparr>)"
    using assms by (intro getSocket_ready) simp_all
  then show ?thesis by (simp add: swapTransactionRequest_def Let_def)
qed

lemma swapTransactionExecute_ready:
  assumes "socketConnection w \<noteq> None" "the_socket w \<noteq> None"
  shows "swapTransactionExecute t w =
     (let cid = length (calls w);
          w2 = register_call cid Execute (w\<lparr>calls := calls w @ [new_call Execute]\<rparr>)
      in case t of
           NoTransaction v \<Rightarrow>
             reject_call cid (new_Error ''Invalid signed transaction provided'') w2
         | Transaction (Inl error) \<Rightarrow>
             reject_call cid (initialization_error Execute error) (mark_resolved cid w2)
         | Transaction (Inr bytes) \<Rightarrow>
             socket_emit ''swapPoolExecute'' (SwapPoolExecuteMsg bytes) w2)"
proof -
  have "socketConnection_getSocket (w\<lparr>calls := calls w @ [new_call Execute]\<rparr>)
          = Inr (w\<lparr>calls := calls w @ [new_call Execute]\<rparr>)"
    using assms by (intro getSocket_ready) simp_all
  then show ?thesis by (simp add: swapTransactionExecute_def Let_def)
qed

lemma ready_then_reject: "ready w \<Longrightarrow> ready (reject_call cid e w)"
  by (rule ready_frame [OF frame_reject_call]) simp_all

lemma ready_then_emit: "ready w \<Longrightarrow> ready (socket_emit n m w)"
  by (rule ready_frame [OF frame_socket_emit]) simp_all


lemma ready_swapTransactionRequest:
  assumes "ready w"
  shows "ready (swapTransactionRequest senderId swap w)"
proof -
  have s: "socketConnection w \<noteq> None" "the_socket w \<noteq> None"
    using assms by (simp_all add: ready_def)
  show ?thesis
    unfolding swapTransactionRequest_ready [OF s] Let_def
    using ready_registered [OF assms, of Request]
    by (auto intro: ready_then_reject ready_then_emit)
qed


text \<open>A call leaves the earlier calls, the clock and the process alone.\<close>

lemma getSocket_result:
  "socketConnection_getSocket w = Inr w1 \<Longrightarrow>
     calls w1 = calls w \<and> now w1 = now w \<and> uncaught w1 = uncaught w"
  by (auto simp: socketConnection_getSocket_def split: option.splits sum.splits)

lemma swapTransactionRequest_old:
  "k < length (calls w) \<Longrightarrow> call_at (swapTransactionRequest senderId swap w) k = call_at w k"
proof (cases "socketConnection_getSocket (w\<lparr>calls := calls w @ [new_call Request]\<rparr>)")
  case (Inl e)
  assume "k < length (calls w)"
  then show ?thesis using Inl by (simp add: swapTransactionRequest_def Let_def)
next
  case (Inr w1)
  assume k: "k < length (calls w)"
  have c: "call_at w1 k = call_at w k"
    using getSocket_result [OF Inr] k by (simp add: call_at_def nth_append)
  show ?thesis using Inr k c by (simp add: swapTransactionRequest_def Let_def)
qed

lemma swapTransactionExecute_old:
  "k < length (calls w) \<Longrightarrow> call_at (swapTransactionExecute t w) k = call_at w k"
proof (cases "socketConnection_getSocket (w\<lparr>calls := calls w @ [new_call Execute]\<rparr>)")
  case (Inl e)
  assume "k < length (calls w)"
  then show ?thesis using Inl by (simp add: swapTransactionExecute_def Let_def)
next
  case (Inr w1)
  assume k: "k < length (calls w)"
  have c: "call_at w1 k = call_at w k"
    using getSocket_result [OF Inr] k by (simp add: call_at_def nth_append)
  show ?thesis using Inr k c
    by (simp add: swapTransactionExecute_def Let_def split: signedTransaction.splits sum.splits)
qed

lemma swap_call_now_uncaught [simp]:
  "now (swapTransactionRequest senderId swap w) = now w"
  "uncaught (swapTransactionRequest senderId swap w) = uncaught w"
  "now (swapTransactionExecute t w) = now w"
  "uncaught (swapTransactionExecute t w) = uncaught w"
proof -
  show "now (swapTransactionRequest senderId swap w) = now w"
    by (cases "socketConnection_getSocket (w\<lparr>calls := calls w @ [new_call Request]\<rparr>)")
       (auto simp: swapTransactionRequest_def Let_def dest: getSocket_result)
  show "uncaught (swapTransactionRequest senderId swap w) = uncaught w"
    by (cases "socketConnection_getSocket (w\<lparr>calls := calls w @ [new_call Request]\<rparr>)")
       (auto simp: swapTransactionRequest_def Let_def dest: getSocket_result)
  show "now (swapTransactionExecute t w) = now w"
    by (cases "socketConnection_getSocket (w\<lparr>calls := calls w @ [new_call Execute]\<rparr>)")
       (auto simp: swapTransactionExecute_def Let_def dest: getSocket_result
          split: signedTransaction.splits sum.splits)
  show "uncaught (swapTransactionExecute t w) = uncaught w"
    by (cases "socketConnection_getSocket (w\<lparr>calls := calls w @ [new_call Execute]\<rparr>)")
       (auto simp: swapTransactionExecute_def Let_def dest: getSocket_result
          split: signedTransaction.splits sum.splits)
qed

section \<open>The end of a task\<close>

lemma end_of_task_fields [simp]:
  "now (end_of_task sdk w) = now w"
  "calls (end_of_task sdk w) = calls w"
  "unhandled (end_of_task sdk w) = unhandled w"
  "authPromise (end_of_task sdk w) = authPromise w"
  "socketConnection (end_of_task sdk w) = socketConnection w"
  "the_socket (end_of_task sdk w) = the_socket w"
  "call_at (end_of_task sdk w) k = call_at w k"
  "listeners_w (end_of_task sdk w) = listeners_w w"
  "emitted_w (end_of_task sdk w) = emitted_w w"
  by (simp_all add: end_of_task_def split: list.splits)

lemma end_of_task_observed [simp]:
  "promise_at (end_of_task sdk w) k = promise_at w k"
  "listeners_ok (end_of_task sdk w) = listeners_ok w"
  by (simp_all add: promise_at_def listeners_ok_def)







section \<open>Pending calls and the deadline\<close>

subsection \<open>A pending call stays as it is through quiet actions\<close>












subsection \<open>The deadline\<close>





subsection \<open>A settled promise stays settled\<close>



section \<open>The swap operations and the handshake\<close>

lemma demo_authenticated_eq:
  "demo_authenticated =
     \<lparr>now = 0, uncaught = None, unhandled = [],
      nodeSocket = Some
        \<lparr>node = Some demo_node, wallet = ''0.0.1000'',
         socket = Some \<lparr>sock_url = ''wss://testnet-sn1.hsuite.network/gateway'',
                        query_wallet = ''0.0.1000'', listeners = auth_listeners,
                        emitted = [(''authenticate'',
                                    AuthenticateMsg
                                      \<lparr>serverSignature = [1, 2, 3], originalPayload = Str ''abc''\<rparr>
                                      [106, 115, 111, 110, 7] ''0.0.1000'')],
                        connected = True\<rparr>\<rparr>,
      authPromise = Some (Inr ''account 0.0.1000 authenticated to node 0.0.467726.''),
      socketConnection = Some ''account 0.0.1000 authenticated to node 0.0.467726.'',
      calls = []\<rparr>"
  by (simp add: demo_authenticated_def main_await_socket_def run_def step_def deliver_def
      socket_io_status_def listeners_of_def the_socket_def upd_socket_def demo_connecting_def
      initial_world_def auth_listeners_def on_authenticate_def on_authentication_def
      sign_challenge_def demo_challenge_def demo_sdk_def demo_account_def socket_emit_def
      nodeSocket_operator_def getNode_def resolve_auth_def reject_auth_def demo_node_def
      end_of_task_def on_connect_def on_disconnect_def)

text \<open>The example session is the one the program builds on \<open>testnet\<close>.\<close>

lemma demo_connecting_built:
  "smartNodeSocket (table_of nodes) demo_accounts ''testnet'' 0 = demo_connecting"
proof -
  have "own_key ''testnet'' = Some Testnet" by (simp add: own_key_def)
  moreover have "element_at (entry (table_of nodes) Testnet)
      (random_index (length (entry (table_of nodes) Testnet)) 0) = Some demo_node"
    by (simp add: table_of_nodes random_index_0) (simp add: nodes_def element_at_def demo_node_def)
  ultimately have "smartNodeSocket (table_of nodes) demo_accounts ''testnet'' 0
     = initial_world\<lparr>nodeSocket := Some
         \<lparr>node = Some demo_node, wallet = account_id (entry demo_accounts Testnet),
          socket = Some ((io (replace ''http://'' ''ws://''
                                (replace ''https://'' ''wss://'' (url demo_node))
                              @ ''/gateway'') (account_id (entry demo_accounts Testnet)))
                         \<lparr>listeners := auth_listeners\<rparr>)\<rparr>\<rparr>"
    by (rule smartNodeSocket_created)
  then show ?thesis
    by (simp add: demo_connecting_def demo_node_def demo_account_def demo_accounts_def entry_def
        io_def)
qed

lemma demo_authenticated_ready: "ready demo_authenticated"
  by (simp add: demo_authenticated_eq ready_def listeners_ok_def listeners_w_def the_socket_def
      auth_listeners_def)




lemma run_Cons: "run sdk acct (a # acts) w = run sdk acct acts (step sdk acct a w)"
  by (simp add: run_def)



lemma event_name_simps [simp]:
  "event_name Request = ''swapPoolRequest''" "event_name Execute = ''swapPoolExecute''"
  by (simp_all add: event_name_def)

lemma demo_authenticated_obs:
  "listeners_w demo_authenticated = auth_listeners"
  "the_socket demo_authenticated \<noteq> None"
  "socketConnection demo_authenticated \<noteq> None"
  "uncaught demo_authenticated = None"
  "now demo_authenticated = 0"
  by (simp_all add: demo_authenticated_eq listeners_w_def the_socket_def)

lemmas eval_defs =
  swapTransactionRequest_def swapTransactionExecute_def socketConnection_getSocket_def
  getSocket_def register_call_def reject_call_def resolve_call_def cleanup_def settle_def
  mark_resolved_def clearTimeout_def call_at_def upd_call_def socket_on_def socket_off_def
  socket_emit_def upd_socket_def the_socket_def listeners_w_def emitted_w_def promise_at_def
  new_call_def Let_def elapse_def fire_timer_def timeout_callback_def auth_listeners_def
  responseHandler_def errorHandler_def disconnectHandler_def run_def step_def deliver_def
  socket_io_status_def listeners_of_def op_word_def default_code_def js_or_def
  end_of_task_def demo_sdk_def on_connect_def on_disconnect_def nodeSocket_operator_def
  getNode_def

lemmas demo_defs =
  demo_requested_def demo_executing_def demo_rejected_def demo_execute_rejected_def
  demo_disconnected_def






text \<open>
  An \<open>error\<close> event that carries no argument: the error handler marks the call
  resolved and clears the timer, then throws on \<open>error.message\<close>; the promise is
  left pending and the listeners stay.
\<close>

lemma error_event_without_argument:
  "promise_at (deliver demo_sdk demo_account ''error'' Undefined demo_requested) 0 = None
   \<and> call_at (deliver demo_sdk demo_account ''error'' Undefined demo_requested) 0
       = Some \<lparr>c_op = Request, hasResolved = True, timeout = Cleared, promise = None\<rparr>
   \<and> uncaught (deliver demo_sdk demo_account ''error'' Undefined demo_requested)
       = Some (TypeError_reading ''undefined'' ''message'')
   \<and> listeners_w (deliver demo_sdk demo_account ''error'' Undefined demo_requested)
       = auth_listeners @
           [(''swapPoolRequest'', ResponseHandler 0), (''error'', ErrorHandler 0),
            (''disconnect'', DisconnectHandler 0)]"
  by (simp add: demo_defs demo_authenticated_eq eval_defs)

text \<open>
  C1. The input-validation exit. On the authenticated example session,
  \<open>swapTransactionRequest('', {})\<close> rejects the promise at once and removes its three
  listeners, but \<open>hasResolved\<close> stays \<open>false\<close> and the timer stays armed for 30000 ms;
  when that time has passed the timer fires and runs its callback. The same happens for
  \<open>swapTransactionExecute(null)\<close>.
\<close>

theorem validation_reject_leaves_timer:
  "call_at demo_rejected 0
     = Some \<lparr>c_op = Request, hasResolved = False, timeout = Armed 30000,
             promise = Some (Inl (new_Error
               ''Invalid senderId provided - must be a valid account ID string''))\<rparr>
   \<and> listeners_w demo_rejected = auth_listeners
   \<and> call_at (elapse 30000 demo_rejected) 0
     = Some \<lparr>c_op = Request, hasResolved = True, timeout = Fired,
             promise = Some (Inl (new_Error
               ''Invalid senderId provided - must be a valid account ID string''))\<rparr>
   \<and> call_at demo_execute_rejected 0
     = Some \<lparr>c_op = Execute, hasResolved = False, timeout = Armed 30000,
             promise = Some (Inl (new_Error ''Invalid signed transaction provided''))\<rparr>
   \<and> listeners_w demo_execute_rejected = auth_listeners"
  by (simp add: demo_defs demo_authenticated_eq eval_defs)

text \<open>
  C2, as stated, fails: after a \<open>disconnect\<close> the connection is not authenticated, yet
  \<open>swapTransactionRequest\<close> with well-formed arguments does not fail: the promise is
  pending, three listeners are registered and the request is emitted.
\<close>

theorem no_state_check_counterexample:
  "\<not> authenticated demo_disconnected
   \<and> promise_at (swapTransactionRequest (Str ''0.0.2000'') (Obj []) demo_disconnected) 0 = None
   \<and> listeners_w (swapTransactionRequest (Str ''0.0.2000'') (Obj []) demo_disconnected)
       = auth_listeners @
           [(''swapPoolRequest'', ResponseHandler 0), (''error'', ErrorHandler 0),
            (''disconnect'', DisconnectHandler 0)]
   \<and> emitted_w (swapTransactionRequest (Str ''0.0.2000'') (Obj []) demo_disconnected)
       = emitted_w demo_disconnected @
           [(''swapPoolRequest'', SwapPoolRequestMsg (Str ''0.0.2000'') (Obj []))]"
  by (simp add: demo_defs demo_authenticated_eq eval_defs authenticated_def)

lemma getSocket_null:
  "socketConnection w = None \<Longrightarrow>
   socketConnection_getSocket (w\<lparr>calls := cs\<rparr>) = Inl (TypeError_reading ''null'' ''socket'')"
  by (simp add: socketConnection_getSocket_def)

text \<open>
  C2, amended. When no connection has been stored (\<open>socketConnection\<close> is \<open>null\<close>),
  both swap functions fail at once: the promise is rejected with the
  \<open>INITIALIZATION_ERROR\<close> built from the \<open>TypeError\<close>, no timer is set, no listener
  is registered and nothing is emitted.
\<close>

theorem no_connection_fails_immediately:
  assumes "socketConnection w = None"
  shows "call_at (swapTransactionRequest senderId swap w) (length (calls w))
           = Some \<lparr>c_op = Request, hasResolved = True, timeout = Unset,
                    promise = Some (Inl (initialization_error Request
                                (TypeError_reading ''null'' ''socket'')))\<rparr>
       \<and> listeners_w (swapTransactionRequest senderId swap w) = listeners_w w
       \<and> emitted_w (swapTransactionRequest senderId swap w) = emitted_w w
       \<and> call_at (swapTransactionExecute t w) (length (calls w))
           = Some \<lparr>c_op = Execute, hasResolved = True, timeout = Unset,
                    promise = Some (Inl (initialization_error Execute
                                (TypeError_reading ''null'' ''socket'')))\<rparr>
       \<and> listeners_w (swapTransactionExecute t w) = listeners_w w
       \<and> emitted_w (swapTransactionExecute t w) = emitted_w w
       \<and> code (initialization_error opn e) = Str ''INITIALIZATION_ERROR''"
  using assms
  by (simp add: swapTransactionRequest_def swapTransactionExecute_def getSocket_null Let_def
      new_call_def clearTimeout_def initialization_error_def)

theorem no_connection_fails_immediately_witness:
  "socketConnection demo_connecting = None
   \<and> promise_at (swapTransactionRequest (Str ''0.0.2000'') (Obj []) demo_connecting) 0
       = Some (Inl (initialization_error Request (TypeError_reading ''null'' ''socket'')))
   \<and> listeners_w (swapTransactionRequest (Str ''0.0.2000'') (Obj []) demo_connecting)
       = auth_listeners
   \<and> emitted_w (swapTransactionRequest (Str ''0.0.2000'') (Obj []) demo_connecting) = []"
proof -
  have n: "socketConnection demo_connecting = None"
    by (simp add: demo_connecting_def initial_world_def)
  have o: "listeners_w demo_connecting = auth_listeners" "emitted_w demo_connecting = []"
    "length (calls demo_connecting) = 0"
    by (simp_all add: demo_connecting_def initial_world_def listeners_w_def emitted_w_def
        the_socket_def)
  show ?thesis
    using no_connection_fails_immediately [OF n, of "Str ''0.0.2000''" "Obj []"] n o
    by (simp add: promise_at_def)
qed

text \<open>
  C3, as stated, fails: a second \<open>swapTransactionRequest\<close> on the example session,
  made while the first one is outstanding, is not rejected: both promises are pending,
  and two requests were emitted.
\<close>

theorem second_call_counterexample:
  "promise_at demo_requested 0 = None
   \<and> promise_at (swapTransactionRequest (Str ''0.0.2000'') (Obj []) demo_requested) 0 = None
   \<and> promise_at (swapTransactionRequest (Str ''0.0.2000'') (Obj []) demo_requested) 1 = None
   \<and> emitted_w (swapTransactionRequest (Str ''0.0.2000'') (Obj []) demo_requested)
       = emitted_w demo_authenticated @
           [(''swapPoolRequest'', SwapPoolRequestMsg (Str ''0.0.2000'') (Obj [])),
            (''swapPoolRequest'', SwapPoolRequestMsg (Str ''0.0.2000'') (Obj []))]"
  by (simp add: demo_defs demo_authenticated_eq eval_defs)

text \<open>
  C3, amended. On a live session with the connection stored, a swap call with
  well-formed arguments made while another call is outstanding is accepted. It becomes
  the next call of the session: not resolved, its promise pending, its timer armed for
  30000 ms after the moment of the call. It emits its own wire request, it registers
  its own three listeners, and the outstanding call is left as it was.
\<close>

theorem second_call_is_accepted:
  assumes r: "ready w"
    and o: "call_at w k = Some c" "promise c = None"
    and v: "truthy senderId" "typeof senderId = ''string''" "truthy swap"
      "typeof swap = ''object''"
  shows "call_at (swapTransactionRequest senderId swap w) (length (calls w))
           = Some \<lparr>c_op = Request, hasResolved = False, timeout = Armed (now w + 30000),
                    promise = None\<rparr>
       \<and> length (calls (swapTransactionRequest senderId swap w)) = Suc (length (calls w))
       \<and> emitted_w (swapTransactionRequest senderId swap w)
           = emitted_w w @ [(''swapPoolRequest'', SwapPoolRequestMsg senderId swap)]
       \<and> listeners_w (swapTransactionRequest senderId swap w)
           = listeners_w w @
               [(''swapPoolRequest'', ResponseHandler (length (calls w))),
                (''error'', ErrorHandler (length (calls w))),
                (''disconnect'', DisconnectHandler (length (calls w)))]
       \<and> call_at (swapTransactionRequest senderId swap w) k = Some c
       \<and> call_at (swapTransactionExecute (Transaction (Inr bytes)) w) (length (calls w))
           = Some \<lparr>c_op = Execute, hasResolved = False, timeout = Armed (now w + 30000),
                    promise = None\<rparr>
       \<and> length (calls (swapTransactionExecute (Transaction (Inr bytes)) w))
           = Suc (length (calls w))
       \<and> emitted_w (swapTransactionExecute (Transaction (Inr bytes)) w)
           = emitted_w w @ [(''swapPoolExecute'', SwapPoolExecuteMsg bytes)]
       \<and> listeners_w (swapTransactionExecute (Transaction (Inr bytes)) w)
           = listeners_w w @
               [(''swapPoolExecute'', ResponseHandler (length (calls w))),
                (''error'', ErrorHandler (length (calls w))),
                (''disconnect'', DisconnectHandler (length (calls w)))]
       \<and> call_at (swapTransactionExecute (Transaction (Inr bytes)) w) k = Some c"
proof -
  have s: "socketConnection w \<noteq> None" "the_socket w \<noteq> None"
    using r by (simp_all add: ready_def)
  have k: "k < length (calls w)" using o(1) by (auto simp: call_at_def split: if_splits)
  have old: "call_at (swapTransactionRequest senderId swap w) k = Some c"
    "call_at (swapTransactionExecute (Transaction (Inr bytes)) w) k = Some c"
    using o(1) swapTransactionRequest_old [OF k] swapTransactionExecute_old [OF k] by simp_all
  have a: "call_at (swapTransactionRequest senderId swap w) (length (calls w))
           = Some \<lparr>c_op = Request, hasResolved = False, timeout = Armed (now w + 30000),
                    promise = None\<rparr>"
    "length (calls (swapTransactionRequest senderId swap w)) = Suc (length (calls w))"
    "emitted_w (swapTransactionRequest senderId swap w)
       = emitted_w w @ [(''swapPoolRequest'', SwapPoolRequestMsg senderId swap)]"
    "listeners_w (swapTransactionRequest senderId swap w) = listeners_w w @
                  [(''swapPoolRequest'', ResponseHandler (length (calls w))),
                   (''error'', ErrorHandler (length (calls w))),
                   (''disconnect'', DisconnectHandler (length (calls w)))]"
    using v s
    by (simp_all add: swapTransactionRequest_ready [OF s] Let_def new_call_def
        emitted_w_socket_emit listeners_w_register_call)
  have b: "call_at (swapTransactionExecute (Transaction (Inr bytes)) w) (length (calls w))
           = Some \<lparr>c_op = Execute, hasResolved = False, timeout = Armed (now w + 30000),
                    promise = None\<rparr>"
    "length (calls (swapTransactionExecute (Transaction (Inr bytes)) w)) = Suc (length (calls w))"
    "emitted_w (swapTransactionExecute (Transaction (Inr bytes)) w)
       = emitted_w w @ [(''swapPoolExecute'', SwapPoolExecuteMsg bytes)]"
    "listeners_w (swapTransactionExecute (Transaction (Inr bytes)) w) = listeners_w w @
                  [(''swapPoolExecute'', ResponseHandler (length (calls w))),
                   (''error'', ErrorHandler (length (calls w))),
                   (''disconnect'', DisconnectHandler (length (calls w)))]"
    using s
    by (simp_all add: swapTransactionExecute_ready [OF s] Let_def new_call_def
        emitted_w_socket_emit listeners_w_register_call)
  show ?thesis using old a b by simp
qed

theorem second_call_is_accepted_witness:
  "ready demo_requested
   \<and> call_at demo_requested 0
       = Some \<lparr>c_op = Request, hasResolved = False, timeout = Armed 30000, promise = None\<rparr>
   \<and> call_at (swapTransactionRequest (Str ''0.0.2000'') (Obj []) demo_requested) 1
       = Some \<lparr>c_op = Request, hasResolved = False, timeout = Armed 30000, promise = None\<rparr>
   \<and> length (calls (swapTransactionRequest (Str ''0.0.2000'') (Obj []) demo_requested)) = 2
   \<and> call_at (swapTransactionRequest (Str ''0.0.2000'') (Obj []) demo_requested) 0
       = Some \<lparr>c_op = Request, hasResolved = False, timeout = Armed 30000, promise = None\<rparr>
   \<and> emitted_w (swapTransactionRequest (Str ''0.0.2000'') (Obj []) demo_requested)
       = emitted_w demo_requested @
           [(''swapPoolRequest'', SwapPoolRequestMsg (Str ''0.0.2000'') (Obj []))]
   \<and> listeners_w (swapTransactionRequest (Str ''0.0.2000'') (Obj []) demo_requested)
       = listeners_w demo_requested @
           [(''swapPoolRequest'', ResponseHandler 1), (''error'', ErrorHandler 1),
            (''disconnect'', DisconnectHandler 1)]"
proof -
  have r: "ready demo_requested"
    unfolding demo_requested_def
    using demo_authenticated_ready by (rule ready_swapTransactionRequest)
  have c: "call_at demo_requested 0
      = Some \<lparr>c_op = Request, hasResolved = False, timeout = Armed 30000, promise = None\<rparr>"
    by (simp add: demo_defs demo_authenticated_eq eval_defs)
  have l: "length (calls demo_requested) = 1" "now demo_requested = 0"
    by (simp_all add: demo_defs demo_authenticated_eq eval_defs)
  have v: "truthy (Str ''0.0.2000'')" "typeof (Str ''0.0.2000'') = ''string''"
    "truthy (Obj [])" "typeof (Obj []) = ''object''"
    by simp_all
  show ?thesis
    using second_call_is_accepted [OF r c _ v, of "[]"] r c l
    by simp
qed

text \<open>
  C4, as stated, fails for \<open>swapTransactionExecute\<close>: a success response resolves the
  promise with the whole response, not with its payload, and a success response without
  payload resolves as well.
\<close>

theorem execute_success_counterexample:
  "promise_at
     (deliver demo_sdk demo_account ''swapPoolExecute''
        (Obj [(''status'', Str ''success''), (''payload'', Str ''receipt'')]) demo_executing) 0
     = Some (Inr (Obj [(''status'', Str ''success''), (''payload'', Str ''receipt'')]))
   \<and> promise_at
       (deliver demo_sdk demo_account ''swapPoolExecute''
          (Obj [(''status'', Str ''success'')]) demo_executing) 0
     = Some (Inr (Obj [(''status'', Str ''success'')]))"
  by (simp add: demo_defs demo_authenticated_eq eval_defs)

text \<open>
  C4, amended. For a call that is not yet settled, the response handler does this.
  A response that is falsy or no object rejects with \<open>Invalid response format received
  from server\<close>. A success response: \<open>swapTransactionRequest\<close> resolves with
  \<open>response.payload\<close> when that is truthy and rejects with \<open>Server response missing
  transaction payload\<close> otherwise; \<open>swapTransactionExecute\<close> resolves with the whole
  response, payload or not. Any other status rejects: when
  \<open>response.error || response.message || default\<close> converts to a string, with an
  error that has this string as its message, \<open>response.errorCode || response.code ||
  default\<close> as its code, and carries the response; when the conversion throws, with the
  error \<open>Error parsing server response: ...\<close>, which has neither code nor response.
\<close>

theorem response_classification:
  assumes c: "call_at w cid = Some c" "\<not> hasResolved c" "promise c = None"
  shows "(\<not> truthy response \<or> typeof response \<noteq> ''object'' \<longrightarrow>
            promise_at (responseHandler sdk cid response w) cid
              = Some (Inl (new_Error ''Invalid response format received from server'')))
       \<and> (truthy response \<and> typeof response = ''object''
            \<and> field response ''status'' = Str ''success'' \<and> c_op c = Request
            \<and> truthy (field response ''payload'') \<longrightarrow>
            promise_at (responseHandler sdk cid response w) cid
              = Some (Inr (field response ''payload'')))
       \<and> (truthy response \<and> typeof response = ''object''
            \<and> field response ''status'' = Str ''success'' \<and> c_op c = Request
            \<and> \<not> truthy (field response ''payload'') \<longrightarrow>
            promise_at (responseHandler sdk cid response w) cid
              = Some (Inl (new_Error ''Server response missing transaction payload'')))
       \<and> (truthy response \<and> typeof response = ''object''
            \<and> field response ''status'' = Str ''success'' \<and> c_op c = Execute \<longrightarrow>
            promise_at (responseHandler sdk cid response w) cid = Some (Inr response))
       \<and> (truthy response \<and> typeof response = ''object''
            \<and> field response ''status'' \<noteq> Str ''success''
            \<and> String_of (Number_toString sdk)
                 (js_or (field response ''error'')
                    (js_or (field response ''message'')
                       (Str (''Unknown error occurred during swap '' @ op_word (c_op c)))))
               = Inr msg \<longrightarrow>
            promise_at (responseHandler sdk cid response w) cid
              = Some (Inl ((new_Error msg)
                   \<lparr>code := js_or (field response ''errorCode'')
                              (js_or (field response ''code'') (Str (default_code (c_op c)))),
                    err_response := response\<rparr>)))
       \<and> (truthy response \<and> typeof response = ''object''
            \<and> field response ''status'' \<noteq> Str ''success''
            \<and> String_of (Number_toString sdk)
                 (js_or (field response ''error'')
                    (js_or (field response ''message'')
                       (Str (''Unknown error occurred during swap '' @ op_word (c_op c)))))
               = Inl parseError \<longrightarrow>
            promise_at (responseHandler sdk cid response w) cid
              = Some (Inl (new_Error (''Error parsing server response: ''
                                        @ message parseError))))"
  using c
  by (simp add: responseHandler_def Let_def promise_at_def split: swap_op.splits)

theorem response_classification_witness:
  "promise_at (responseHandler demo_sdk 0 (Str ''hello'') demo_requested) 0
     = Some (Inl (new_Error ''Invalid response format received from server''))
   \<and> promise_at (responseHandler demo_sdk 0
        (Obj [(''status'', Str ''success''), (''payload'', Str ''tx'')]) demo_requested) 0
     = Some (Inr (Str ''tx''))
   \<and> promise_at (responseHandler demo_sdk 0 (Obj [(''status'', Str ''success'')])
        demo_requested) 0
     = Some (Inl (new_Error ''Server response missing transaction payload''))
   \<and> promise_at (responseHandler demo_sdk 0
        (Obj [(''status'', Str ''error''), (''message'', Str ''pool is empty''),
              (''code'', Num 422)]) demo_requested) 0
     = Some (Inl ((new_Error ''pool is empty'')
          \<lparr>code := Num 422,
           err_response := Obj [(''status'', Str ''error''), (''message'', Str ''pool is empty''),
              (''code'', Num 422)]\<rparr>))
   \<and> promise_at (responseHandler demo_sdk 0
        (Obj [(''status'', Str ''error''), (''error'', Num 1000000000000000000000)])
        demo_requested) 0
     = Some (Inl ((new_Error ''1e+21'')
          \<lparr>code := Str ''SWAP_REQUEST_ERROR'',
           err_response := Obj [(''status'', Str ''error''),
              (''error'', Num 1000000000000000000000)]\<rparr>))
   \<and> promise_at (responseHandler demo_sdk 0
        (Obj [(''status'', Str ''error''), (''error'', Obj [(''toString'', Num 1)])])
        demo_requested) 0
     = Some (Inl (new_Error
          ''Error parsing server response: Cannot convert object to primitive value''))
   \<and> promise_at (responseHandler demo_sdk 0 (Obj [(''status'', Str ''success'')])
        demo_executing) 0
     = Some (Inr (Obj [(''status'', Str ''success'')]))"
proof -
  let ?c = "\<lparr>c_op = Request, hasResolved = False, timeout = Armed 30000, promise = None\<rparr>"
  let ?d = "\<lparr>c_op = Execute, hasResolved = False, timeout = Armed 30000, promise = None\<rparr>"
  have c: "call_at demo_requested 0 = Some ?c"
    by (simp add: demo_defs demo_authenticated_eq eval_defs)
  have d: "call_at demo_executing 0 = Some ?d"
    by (simp add: demo_defs demo_authenticated_eq eval_defs)
  have h: "\<not> hasResolved ?c" "promise ?c = None" "\<not> hasResolved ?d" "promise ?d = None"
    by simp_all
  show ?thesis
    using response_classification [OF c h(1,2), of "Str ''hello''" demo_sdk]
      response_classification [OF c h(1,2),
        of "Obj [(''status'', Str ''success''), (''payload'', Str ''tx'')]" demo_sdk]
      response_classification [OF c h(1,2), of "Obj [(''status'', Str ''success'')]" demo_sdk]
      response_classification [OF c h(1,2),
        of "Obj [(''status'', Str ''error''), (''message'', Str ''pool is empty''),
                  (''code'', Num 422)]" demo_sdk "''pool is empty''"]
      response_classification [OF c h(1,2),
        of "Obj [(''status'', Str ''error''), (''error'', Num 1000000000000000000000)]"
          demo_sdk "''1e+21''"]
      response_classification [OF c h(1,2),
        of "Obj [(''status'', Str ''error''), (''error'', Obj [(''toString'', Num 1)])]"
          demo_sdk _ "TypeError ''Cannot convert object to primitive value''"]
      response_classification [OF d h(3,4), of "Obj [(''status'', Str ''success'')]" demo_sdk]
    by (simp add: js_or_def TypeError_def new_Error_def demo_sdk_def default_code_def)
qed

text \<open>
  C6. A session whose only \<open>authentication\<close> listener is the program's receives a
  challenge \<open>{payload, signedData: {signature}}\<close>; the signature converts to bytes and
  the configured private key decodes. Then exactly one message is emitted, under
  \<open>authenticate\<close>: its \<open>signedPayload\<close> is \<open>{serverSignature: the signature bytes,
  originalPayload: the challenge payload}\<close>, its \<open>userSignature\<close> is the signature,
  with the decoded key, of the bytes of the serialised payload, and its \<open>walletId\<close> is
  the caller's account id. The promise is not touched.
\<close>

theorem challenge_response:
  assumes s: "the_socket w \<noteq> None"
    and l: "listeners_of ''authentication'' w = [OnAuthentication]"
    and e: "event = Obj kvs" "map_of kvs ''signedData'' = Some (Obj sd)"
      "map_of sd ''signature'' = Some sig"
    and u: "Uint8Array sdk sig = Inr server_sig"
    and k: "fromString sdk (private_key acct) = Inr privateKey"
  shows "emitted_w (deliver sdk acct ''authentication'' event w)
           = emitted_w w @
               [(''authenticate'',
                 AuthenticateMsg
                   \<lparr>serverSignature = server_sig, originalPayload = field event ''payload''\<rparr>
                   (sign sdk privateKey
                      (Buffer_from sdk
                         (JSON_stringify sdk
                            \<lparr>serverSignature = server_sig,
                             originalPayload = field event ''payload''\<rparr>)))
                   (account_id acct))]
       \<and> authPromise (deliver sdk acct ''authentication'' event w) = authPromise w"
proof -
  have sc: "sign_challenge sdk acct event =
     Inr (AuthenticateMsg \<lparr>serverSignature = server_sig, originalPayload = field event ''payload''\<rparr>
           (sign sdk privateKey (Buffer_from sdk (JSON_stringify sdk
               \<lparr>serverSignature = server_sig, originalPayload = field event ''payload''\<rparr>)))
           (account_id acct))"
    using e u k by (simp add: sign_challenge_def Let_def)
  have st: "socket_io_status ''authentication'' w = w"
    by (simp add: socket_io_status_def)
  have d: "deliver sdk acct ''authentication'' event w = on_authentication sdk acct event w"
    using l by (simp add: deliver_def st Let_def)
  show ?thesis
    unfolding d using s by (simp add: on_authentication_def sc emitted_w_socket_emit)
qed

theorem challenge_response_witness:
  "emitted_w (deliver demo_sdk demo_account ''authentication'' demo_challenge demo_connecting)
     = [(''authenticate'',
         AuthenticateMsg \<lparr>serverSignature = [1, 2, 3], originalPayload = Str ''abc''\<rparr>
           (sign demo_sdk 7 (Buffer_from demo_sdk
               (JSON_stringify demo_sdk
                  \<lparr>serverSignature = [1, 2, 3], originalPayload = Str ''abc''\<rparr>)))
           ''0.0.1000'')]"
proof -
  have s: "the_socket demo_connecting \<noteq> None"
    by (simp add: demo_connecting_def initial_world_def the_socket_def)
  have l: "listeners_of ''authentication'' demo_connecting = [OnAuthentication]"
    by (simp add: listeners_of_def demo_connecting_def initial_world_def the_socket_def
        auth_listeners_def)
  have e: "demo_challenge = Obj [(''payload'', Str ''abc''),
          (''signedData'', Obj [(''signature'', Arr [Num 1, Num 2, Num 3])])]"
    "map_of [(''payload'', Str ''abc''),
          (''signedData'', Obj [(''signature'', Arr [Num 1, Num 2, Num 3])])] ''signedData''
       = Some (Obj [(''signature'', Arr [Num 1, Num 2, Num 3])])"
    "map_of [(''signature'', Arr [Num 1, Num 2, Num 3])] ''signature''
       = Some (Arr [Num 1, Num 2, Num 3])"
    by (simp_all add: demo_challenge_def)
  have u: "Uint8Array demo_sdk (Arr [Num 1, Num 2, Num 3]) = Inr [1, 2, 3]"
    by (simp add: demo_sdk_def)
  have k: "fromString demo_sdk (private_key demo_account) = Inr 7"
    by (simp add: demo_sdk_def demo_account_def)
  have em: "emitted_w demo_connecting = []"
    by (simp add: demo_connecting_def initial_world_def emitted_w_def the_socket_def)
  show ?thesis
    using challenge_response [OF s l e u k] em
    by (simp add: demo_challenge_def demo_account_def)
qed

lemma swap_handlers_authPromise [simp]:
  "authPromise (mark_resolved cid w) = authPromise w"
  "authPromise (responseHandler sdk cid v w) = authPromise w"
  "authPromise (errorHandler sdk cid v w) = authPromise w"
  "authPromise (disconnectHandler sdk cid v w) = authPromise w"
  "authPromise (timeout_callback cid w) = authPromise w"
  "authPromise (fire_timer cid w) = authPromise w"
  by (simp_all add: responseHandler_def errorHandler_def disconnectHandler_def
      timeout_callback_def fire_timer_def Let_def
      split: option.splits swap_op.splits sum.splits timer.splits)

lemma run_handler_authPromise:
  "h \<noteq> OnAuthenticate \<Longrightarrow> h \<noteq> OnAuthentication \<Longrightarrow>
   authPromise (run_handler sdk acct h v w) = authPromise w"
  by (cases h) simp_all

lemma run_listeners_authPromise:
  "OnAuthenticate \<notin> set hs \<Longrightarrow> OnAuthentication \<notin> set hs \<Longrightarrow>
   authPromise (run_listeners sdk acct hs v w) = authPromise w"
  by (induction hs arbitrary: w) (auto simp: Let_def run_handler_authPromise)

lemma other_listeners:
  assumes ok: "listeners_ok w"
    and n: "name \<noteq> ''authenticate''" "name \<noteq> ''authentication''"
  shows "OnAuthenticate \<notin> set (listeners_of name w)
         \<and> OnAuthentication \<notin> set (listeners_of name w)"
proof -
  have "\<And>h. h \<in> set (listeners_of name w) \<Longrightarrow> listener_ok (map c_op (calls w)) (name, h)"
    using ok by (auto simp: listeners_of_alt listeners_ok_def list_all_iff)
  then show ?thesis using n by fastforce
qed

lemma deliver_authPromise:
  assumes "listeners_ok w" "name \<noteq> ''authenticate''" "name \<noteq> ''authentication''"
  shows "authPromise (deliver sdk acct name v w) = authPromise w"
proof -
  have "listeners_of name (socket_io_status name w) = listeners_of name w"
    by (simp add: listeners_of_alt)
  then show ?thesis
    using other_listeners [OF assms]
    by (simp add: deliver_def Let_def run_listeners_authPromise)
qed

lemma fold_fire_timer_authPromise:
  "authPromise (fold fire_timer cs w) = authPromise w"
  by (induction cs arbitrary: w) simp_all

lemma getSocket_result_auth:
  "socketConnection_getSocket w = Inr w1 \<Longrightarrow> authPromise w1 = authPromise w"
  by (auto simp: socketConnection_getSocket_def split: option.splits sum.splits)

lemma swap_call_authPromise [simp]:
  "authPromise (swapTransactionRequest senderId swap w) = authPromise w"
  "authPromise (swapTransactionExecute t w) = authPromise w"
proof -
  show "authPromise (swapTransactionRequest senderId swap w) = authPromise w"
    by (cases "socketConnection_getSocket (w\<lparr>calls := calls w @ [new_call Request]\<rparr>)")
       (auto simp: swapTransactionRequest_def Let_def dest: getSocket_result_auth)
  show "authPromise (swapTransactionExecute t w) = authPromise w"
    by (cases "socketConnection_getSocket (w\<lparr>calls := calls w @ [new_call Execute]\<rparr>)")
       (auto simp: swapTransactionExecute_def Let_def dest: getSocket_result_auth
          split: signedTransaction.splits sum.splits)
qed

lemma step_authPromise:
  assumes "listeners_ok w" "\<not> auth_event a"
  shows "authPromise (step sdk acct a w) = authPromise w"
proof (cases a)
  case (Incoming name v)
  then show ?thesis using assms deliver_authPromise [of w name sdk acct v]
    by (simp add: step_def)
next
  case (Elapse d)
  then show ?thesis by (simp add: step_def elapse_def fold_fire_timer_authPromise)
next
  case (Call_Request senderId swap)
  then show ?thesis by (simp add: step_def)
next
  case (Call_Execute t)
  then show ?thesis by (simp add: step_def)
qed

text \<open>While \<open>socketConnection\<close> is \<open>null\<close>, a swap call registers nothing.\<close>

lemma handshake_call:
  assumes "socketConnection w = None" "listeners_ok w"
  shows "listeners_ok (swapTransactionRequest senderId swap w)
         \<and> socketConnection (swapTransactionRequest senderId swap w) = None
         \<and> listeners_ok (swapTransactionExecute t w)
         \<and> socketConnection (swapTransactionExecute t w) = None"
proof -
  have "\<And>opn. list_all (listener_ok (map c_op (calls w) @ [opn])) (listeners_w w)"
    using assms(2) by (auto simp: listeners_ok_def list_all_iff intro: listener_ok_append)
  then show ?thesis
    using assms(1)
    by (simp add: swapTransactionRequest_def swapTransactionExecute_def getSocket_null Let_def
        listeners_ok_def new_call_def)
qed

lemma handshake_step:
  assumes "socketConnection w = None" "listeners_ok w"
  shows "socketConnection (step sdk acct a w) = None \<and> listeners_ok (step sdk acct a w)"
proof (cases "uncaught w = None")
  case False
  then show ?thesis using assms by (simp add: step_def)
next
  case True
  show ?thesis
  proof (cases a)
    case (Incoming name v)
    have f: "frame w (deliver sdk acct name v w)" by (rule frame_deliver)
    then have "socketConnection (deliver sdk acct name v w) = None"
      using assms(1) by (simp add: frame_def)
    then show ?thesis using Incoming True frame_listeners_ok [OF f assms(2)]
      by (simp add: step_def)
  next
    case (Elapse d)
    have ok: "listeners_ok (w\<lparr>now := now w + d\<rparr>)"
      using assms(2) by (simp add: listeners_ok_def)
    have f: "frame (w\<lparr>now := now w + d\<rparr>) (elapse d w)"
      unfolding elapse_def by (rule frame_fold_fire_timer)
    then have "socketConnection (elapse d w) = None"
      using assms(1) by (simp add: frame_def)
    then show ?thesis using Elapse True frame_listeners_ok [OF f ok]
      by (simp add: step_def)
  next
    case (Call_Request senderId swap)
    then show ?thesis using True handshake_call [OF assms] by (simp add: step_def)
  next
    case (Call_Execute t)
    then show ?thesis using True handshake_call [OF assms] by (simp add: step_def)
  qed
qed

lemma handshake_run:
  assumes "socketConnection w = None" "listeners_ok w" "list_all (\<lambda>a. \<not> auth_event a) acts"
  shows "authPromise (run sdk acct acts w) = authPromise w"
  using assms
proof (induction acts arbitrary: w)
  case Nil
  show ?case by (simp add: run_def)
next
  case (Cons a acts)
  have a: "\<not> auth_event a" "list_all (\<lambda>a. \<not> auth_event a) acts"
    using Cons.prems(3) by simp_all
  have 1: "authPromise (step sdk acct a w) = authPromise w"
    using Cons.prems(2) a(1) by (rule step_authPromise)
  have 2: "socketConnection (step sdk acct a w) = None" "listeners_ok (step sdk acct a w)"
    using handshake_step [OF Cons.prems(1,2), of sdk acct a] by blast+
  have "authPromise (run sdk acct acts (step sdk acct a w)) = authPromise (step sdk acct a w)"
    using 2 a(2) by (rule Cons.IH)
  then show ?case using 1 by (simp add: run_Cons)
qed

text \<open>
  C7, as stated, fails: the example session answers the challenge and then hears
  nothing for a day; the promise is still pending, no error has been produced.
\<close>

theorem no_authentication_deadline_counterexample:
  "authPromise
     (run demo_sdk demo_account
        [Incoming ''connect'' Undefined, Incoming ''authentication'' demo_challenge,
         Elapse 86400000] demo_connecting) = None"
  by (simp add: eval_defs demo_connecting_def initial_world_def on_authentication_def
      sign_challenge_def demo_challenge_def demo_sdk_def demo_account_def)

text \<open>
  C7, amended. On a pending session a verdict whose \<open>isValidSignature\<close> is truthy
  resolves the promise with the success message; a verdict whose flag is falsy rejects
  it with an error that names the account and the node's operator. There is no
  authentication deadline: during the handshake (\<open>socketConnection\<close> still \<open>null\<close>),
  whatever happens other than an \<open>authenticate\<close> or \<open>authentication\<close> event, and
  however much time passes, the promise stays pending.
\<close>

theorem verdict_settles_authentication:
  assumes p: "authPromise w = None"
    and l: "listeners_of ''authenticate'' w = [OnAuthenticate]"
    and n: "nodeSocket_operator w = Inr node_operator"
    and e: "get_prop event ''isValidSignature'' = Inr isValidSignature"
  shows "(truthy isValidSignature \<longrightarrow>
            authPromise (deliver sdk acct ''authenticate'' event w)
              = Some (Inr (''account '' @ account_id acct @ '' authenticated to node ''
                            @ node_operator @ ''.'')))
       \<and> (\<not> truthy isValidSignature \<longrightarrow>
            authPromise (deliver sdk acct ''authenticate'' event w)
              = Some (Inl (new_Error
                     (''Authentication failed: Invalid signature for account ''
                        @ account_id acct @ '' on node '' @ node_operator))))
       \<and> (socketConnection w = None \<and> listeners_ok w
            \<and> list_all (\<lambda>a. \<not> auth_event a) acts \<longrightarrow>
            authPromise (run sdk acct acts w) = None)"
proof (intro conjI impI)
  have st: "socket_io_status ''authenticate'' w = w"
    by (simp add: socket_io_status_def)
  have d: "deliver sdk acct ''authenticate'' event w = on_authenticate acct event w"
    using l by (simp add: deliver_def st Let_def)
  have n': "nodeSocket_operator w = Inr node_operator" by (rule n)
  {
    assume "truthy isValidSignature"
    then show "authPromise (deliver sdk acct ''authenticate'' event w)
              = Some (Inr (''account '' @ account_id acct @ '' authenticated to node ''
                            @ node_operator @ ''.''))"
      unfolding d using p e n' by (simp add: on_authenticate_def resolve_auth_def)
  }
  {
    assume "\<not> truthy isValidSignature"
    then show "authPromise (deliver sdk acct ''authenticate'' event w)
              = Some (Inl (new_Error
                     (''Authentication failed: Invalid signature for account ''
                        @ account_id acct @ '' on node '' @ node_operator)))"
      unfolding d using p e n' by (simp add: on_authenticate_def reject_auth_def)
  }
  {
    assume h: "socketConnection w = None \<and> listeners_ok w
            \<and> list_all (\<lambda>a. \<not> auth_event a) acts"
    then have "authPromise (run sdk acct acts w) = authPromise w"
      by (intro handshake_run) simp_all
    then show "authPromise (run sdk acct acts w) = None" using p by simp
  }
qed

theorem verdict_settles_authentication_witness:
  "authPromise (deliver demo_sdk demo_account ''authenticate''
       (Obj [(''isValidSignature'', Bool True)]) demo_connecting)
     = Some (Inr ''account 0.0.1000 authenticated to node 0.0.467726.'')
   \<and> authPromise (deliver demo_sdk demo_account ''authenticate''
       (Obj [(''isValidSignature'', Bool False)]) demo_connecting)
     = Some (Inl (new_Error
          ''Authentication failed: Invalid signature for account 0.0.1000 on node 0.0.467726''))
   \<and> authPromise (run demo_sdk demo_account
        [Incoming ''connect'' Undefined, Elapse 30000, Incoming ''errors'' (Str ''x''),
         Call_Request (Str ''0.0.2000'') (Obj []), Elapse 86400000] demo_connecting) = None"
proof -
  have p: "authPromise demo_connecting = None"
    by (simp add: demo_connecting_def initial_world_def)
  have l: "listeners_of ''authenticate'' demo_connecting = [OnAuthenticate]"
    by (simp add: listeners_of_def demo_connecting_def initial_world_def the_socket_def
        auth_listeners_def)
  have n: "nodeSocket_operator demo_connecting = Inr ''0.0.467726''"
    by (simp add: nodeSocket_operator_def demo_connecting_def initial_world_def getNode_def
        demo_node_def)
  have e: "get_prop (Obj [(''isValidSignature'', Bool True)]) ''isValidSignature'' = Inr (Bool True)"
    "get_prop (Obj [(''isValidSignature'', Bool False)]) ''isValidSignature'' = Inr (Bool False)"
    by simp_all
  have h: "socketConnection demo_connecting = None" "listeners_ok demo_connecting"
    by (simp_all add: demo_connecting_def initial_world_def listeners_ok_def listeners_w_def
        the_socket_def auth_listeners_def)
  have q: "list_all (\<lambda>a. \<not> auth_event a)
        [Incoming ''connect'' Undefined, Elapse 30000, Incoming ''errors'' (Str ''x''),
         Call_Request (Str ''0.0.2000'') (Obj []), Elapse 86400000]"
    by simp
  show ?thesis
    using verdict_settles_authentication [OF p l n e(1), of demo_sdk demo_account
        "[Incoming ''connect'' Undefined, Elapse 30000, Incoming ''errors'' (Str ''x''),
         Call_Request (Str ''0.0.2000'') (Obj []), Elapse 86400000]"]
      verdict_settles_authentication [OF p l n e(2), of demo_sdk demo_account "[]"]
      h q
    by (simp add: demo_account_def)
qed

end
